theory Spec2Isabelle
  imports Main
begin

section \<open>Go library functions used by the server\<close>

text \<open>
  Go strings are modelled as \<^typ>\<open>string\<close> (lists of characters, one per byte).
  The functions of this section are the parts of the Go standard library that
  \<^verbatim>\<open>http.go\<close> and \<^verbatim>\<open>credential.go\<close> call; each follows the library's own definition.
\<close>

text \<open>\<^verbatim>\<open>strings.HasSuffix(s, suffix)\<close>:
  \<^verbatim>\<open>len(s) >= len(suffix) && s[len(s)-len(suffix):] == suffix\<close>.\<close>

definition HasSuffix :: "string \<Rightarrow> string \<Rightarrow> bool" where
  "HasSuffix s suf \<longleftrightarrow> length suf \<le> length s \<and> drop (length s - length suf) s = suf"

text \<open>\<^verbatim>\<open>strings.Replace(s, old, new, 1)\<close>: the leftmost occurrence of \<open>old\<close> is replaced,
  and \<open>s\<close> is returned unchanged when there is none. (An empty \<open>old\<close> matches at the
  beginning of the string.)\<close>

fun Replace1 :: "string \<Rightarrow> string \<Rightarrow> string \<Rightarrow> string" where
  "Replace1 [] old new = (if old = [] then new else [])"
| "Replace1 (c # s) old new =
     (if take (length old) (c # s) = old then new @ drop (length old) (c # s)
      else c # Replace1 s old new)"

text \<open>\<^verbatim>\<open>strings.Split(s, "/")\<close>.\<close>

fun split_slash :: "string \<Rightarrow> string list" where
  "split_slash [] = [[]]"
| "split_slash (c # cs) =
     (if c = CHR ''/'' then [] # split_slash cs
      else (case split_slash cs of
              [] \<Rightarrow> [[c]]
            | x # xs \<Rightarrow> (c # x) # xs))"

fun join_slash :: "string list \<Rightarrow> string" where
  "join_slash [] = []"
| "join_slash [e] = e"
| "join_slash (e # es) = e @ ''/'' @ join_slash es"

text \<open>\<^verbatim>\<open>path.Clean\<close>: empty and \<open>.\<close> elements are dropped, an inner \<open>..\<close> removes the
  element before it, a \<open>..\<close> at the start of a rooted path is dropped and one at the
  start of a relative path is kept. The elements kept so far are held in reverse.\<close>

fun clean_elems :: "bool \<Rightarrow> string list \<Rightarrow> string list \<Rightarrow> string list" where
  "clean_elems rooted out [] = rev out"
| "clean_elems rooted out (e # es) =
     (if e = [] \<or> e = ''.'' then clean_elems rooted out es
      else if e = ''..'' then
        (case out of
           [] \<Rightarrow> if rooted then clean_elems rooted [] es else clean_elems rooted [e] es
         | x # xs \<Rightarrow>
             if x = ''..'' then clean_elems rooted (e # out) es
             else clean_elems rooted xs es)
      else clean_elems rooted (e # out) es)"

definition is_rooted :: "string \<Rightarrow> bool" where
  "is_rooted p \<longleftrightarrow> (case p of [] \<Rightarrow> False | c # _ \<Rightarrow> c = CHR ''/'')"

definition path_Clean :: "string \<Rightarrow> string" where
  "path_Clean p =
     (if p = [] then ''.''
      else let body = join_slash (clean_elems (is_rooted p) [] (split_slash p)) in
        if is_rooted p then ''/'' @ body
        else if body = [] then ''.'' else body)"

text \<open>\<^verbatim>\<open>path.Join\<close>: leading empty elements are skipped, the rest are joined with a slash
  and the result is cleaned; the result is empty when every element is.\<close>

fun join_buf :: "string \<Rightarrow> string list \<Rightarrow> string" where
  "join_buf buf [] = buf"
| "join_buf buf (e # es) =
     (if buf \<noteq> [] \<or> e \<noteq> [] then
        join_buf ((if buf \<noteq> [] then buf @ ''/'' else buf) @ e) es
      else join_buf buf es)"

definition path_Join :: "string list \<Rightarrow> string" where
  "path_Join elems = (if concat elems = [] then [] else path_Clean (join_buf [] elems))"

section \<open>Data model\<close>

text \<open>The handlers registered in the service table (\<^verbatim>\<open>New\<close>).\<close>

datatype handler = GetInfoRefs | PostRPC | ListRepo | CreateRepo | DeleteRepo

record service =
  svc_method :: string
  svc_suffix :: string
  svc_handler :: handler
  svc_rpc :: string

text \<open>\<^verbatim>\<open>Config\<close>: the fields the two source files read. The hook installer is a
  collaborator; only whether one is configured matters to \<^verbatim>\<open>initRepo\<close>.\<close>

record Config =
  Dir :: string
  GitPath :: string
  Auth :: bool
  AutoCreate :: bool
  AutoHooks :: bool
  Hooks :: bool

text \<open>\<^verbatim>\<open>http.Request\<close>, restricted to what the server reads. \<^verbatim>\<open>Header\<close> and the parsed
  query are Go's \<^verbatim>\<open>map[string][]string\<close>.\<close>

record http_Request =
  Method :: string
  Host :: string
  URL_Path :: string
  URL_String :: string
  URL_Query :: "string \<rightharpoonup> string list"
  RequestURI :: string
  Header :: "string \<rightharpoonup> string list"
  Body :: string

text \<open>\<^verbatim>\<open>Header.Get\<close> and \<^verbatim>\<open>Values.Get\<close>: the first value stored under the key, or the empty
  string.\<close>

definition values_Get :: "(string \<rightharpoonup> string list) \<Rightarrow> string \<Rightarrow> string" where
  "values_Get m k = (case m k of None \<Rightarrow> [] | Some [] \<Rightarrow> [] | Some (v # _) \<Rightarrow> v)"

text \<open>\<^verbatim>\<open>Request\<close> embeds a pointer to the HTTP request (\<^verbatim>\<open>req.Method\<close> is
  \<^verbatim>\<open>req.Request.Method\<close>) and adds the derived name and path.\<close>

record Request =
  http_req :: http_Request
  RepoName :: string
  RepoPath :: string

record Credential =
  Username :: string
  Password :: string
  Token :: string

section \<open>Routing\<close>

text \<open>The service table built by \<^verbatim>\<open>New\<close>, in registration order.\<close>

definition services :: "service list" where
  "services =
    [\<lparr>svc_method = ''GET'', svc_suffix = ''/info/refs'', svc_handler = GetInfoRefs, svc_rpc = ''''\<rparr>,
     \<lparr>svc_method = ''POST'', svc_suffix = ''/git-upload-pack'', svc_handler = PostRPC, svc_rpc = ''git-upload-pack''\<rparr>,
     \<lparr>svc_method = ''POST'', svc_suffix = ''/git-receive-pack'', svc_handler = PostRPC, svc_rpc = ''git-receive-pack''\<rparr>,
     \<lparr>svc_method = ''GET'', svc_suffix = ''/repos'', svc_handler = ListRepo, svc_rpc = ''''\<rparr>,
     \<lparr>svc_method = ''POST'', svc_suffix = ''/repo'', svc_handler = CreateRepo, svc_rpc = ''''\<rparr>,
     \<lparr>svc_method = ''DELETE'', svc_suffix = ''/repo'', svc_handler = DeleteRepo, svc_rpc = ''''\<rparr>]"

text \<open>\<^verbatim>\<open>findService\<close>: the first service whose method equals the request's and whose
  suffix ends the URL path, with the path after \<^verbatim>\<open>strings.Replace(path, suffix, "", 1)\<close>.
  \<^verbatim>\<open>(nil, "")\<close> is \<open>(None, [])\<close>.\<close>

fun findService_loop :: "service list \<Rightarrow> string \<Rightarrow> string \<Rightarrow> service option \<times> string" where
  "findService_loop [] m p = (None, [])"
| "findService_loop (svc # svcs) m p =
     (if svc_method svc = m \<and> HasSuffix p (svc_suffix svc)
      then (Some svc, Replace1 p (svc_suffix svc) [])
      else findService_loop svcs m p)"

definition findService :: "service list \<Rightarrow> http_Request \<Rightarrow> service option \<times> string" where
  "findService svcs req = findService_loop svcs (Method req) (URL_Path req)"

section \<open>The world a request runs in\<close>

text \<open>A directory tree: the file system as \<^verbatim>\<open>os.Stat\<close> and \<^verbatim>\<open>os.ReadDir\<close> see it. A
  directory holds its entries in the order \<^verbatim>\<open>os.ReadDir\<close> returns them.\<close>

datatype node = FileNode | DirNode "(string \<times> node) list"

fun walk :: "node \<Rightarrow> string list \<Rightarrow> node option" where
  "walk n [] = Some n"
| "walk FileNode (e # es) = None"
| "walk (DirNode ents) (e # es) = (case map_of ents e of None \<Rightarrow> None | Some c \<Rightarrow> walk c es)"

text \<open>The operating system resolves a relative path against the working directory of
  the server process.\<close>

definition resolve :: "string \<Rightarrow> string \<Rightarrow> string list" where
  "resolve wd p = clean_elems True [] (split_slash (if is_rooted p then p else wd @ ''/'' @ p))"

datatype log_entry = LogInfo string string | LogError string string

text \<open>\<^verbatim>\<open>KitResponse\<close> with its two payloads, \<^verbatim>\<open>KitRepoResponse\<close> and
  \<^verbatim>\<open>KitListRepoResponse\<close>.\<close>

datatype kit_data = KitRepoResponse string | KitListRepoResponse "string list"

record KitResponse =
  Code :: nat
  Data :: kit_data

text \<open>The state of a process group: \<^verbatim>\<open>gitCommand\<close> sets \<^verbatim>\<open>Setpgid\<close>, so every started
  command is the leader of a group of its own.\<close>

datatype pstate = Alive | Terminated

text \<open>
  The state threaded through a request: the response written so far (\<open>resp_Status = 0\<close>:
  no status line yet; \<open>resp_Json\<close>: the envelope handed to the JSON formatter; \<open>panicked\<close>:
  the handler goroutine panicked), the number of bytes the client still accepts before it
  disconnects (\<open>None\<close>: it never does), the server log, the file system with the
  working directory, and the process groups spawned so far, indexed by process id.
\<close>

record sys =
  resp_Header :: "string \<rightharpoonup> string list"
  resp_Status :: nat
  resp_Body :: string
  resp_Json :: "KitResponse option"
  panicked :: "string option"
  client_room :: "nat option"
  log :: "log_entry list"
  root :: node
  cwd :: string
  pgroups :: "pstate list"

text \<open>
  What lies outside the two source files, as parameters: the name parser
  \<^verbatim>\<open>getNamespaceAndRepo\<close> and \<^verbatim>\<open>subCommand\<close> (other files of the package), the base64
  decoder, the hook installer, and the behaviour of the external executable (how a run
  to completion changes the file system; whether a spawn fails; the output a spawned
  process produces for its arguments and standard input, with the error that ends the
  read, if any; the result of waiting for it; how many bytes its standard input
  accepts), the gzip reader (a header error, or the decoded stream with the error
  that ends it), and whether removing a directory tree fails.
\<close>

record env =
  getNamespaceAndRepo :: "string \<Rightarrow> string \<times> string"
  subCommand :: "string \<Rightarrow> string"
  base64_DecodeString :: "string \<Rightarrow> string option"
  exec_Run :: "string \<Rightarrow> string list \<Rightarrow> node \<Rightarrow> string option \<times> node"
  setupInDir :: "string \<Rightarrow> node \<Rightarrow> string option \<times> node"
  Start_err :: "string \<Rightarrow> string list \<Rightarrow> string option"
  StdinPipe_err :: "string option"
  proc_output :: "string list \<Rightarrow> string \<Rightarrow> string \<times> string option"
  Wait_err :: "string option"
  stdin_room :: "nat option"
  gzip_NewReader :: "string \<Rightarrow> string + string \<times> string option"
  RemoveAll_err :: "string \<Rightarrow> string option"

record Server =
  config :: Config
  srv_services :: "service list"
  AuthFunc :: "(Credential \<Rightarrow> Request \<Rightarrow> bool \<times> string option) option"
  FilterRepoFunc :: "(string list \<Rightarrow> Request \<Rightarrow> string list) option"

definition New :: "Config \<Rightarrow> Server" where
  "New cfg =
     \<lparr>config = (if GitPath cfg = [] then cfg\<lparr>GitPath := ''git''\<rparr> else cfg),
      srv_services = services, AuthFunc = None, FilterRepoFunc = None\<rparr>"

subsection \<open>Logging and the response writer\<close>

text \<open>Modelled from the spec: \<^verbatim>\<open>logInfo\<close> and \<^verbatim>\<open>logError\<close> are not in the two source
  files; the logger is a fire-and-forget sink of (context tag, message or error).\<close>

definition logInfo :: "string \<Rightarrow> string \<Rightarrow> sys \<Rightarrow> sys" where
  "logInfo tag msg st = st\<lparr>log := log st @ [LogInfo tag msg]\<rparr>"

definition logError :: "string \<Rightarrow> string \<Rightarrow> sys \<Rightarrow> sys" where
  "logError tag err st = st\<lparr>log := log st @ [LogError tag err]\<rparr>"

text \<open>\<^verbatim>\<open>w.WriteHeader\<close>: the first call fixes the status.\<close>

definition WriteHeader :: "nat \<Rightarrow> sys \<Rightarrow> sys" where
  "WriteHeader code st = (if resp_Status st = 0 then st\<lparr>resp_Status := code\<rparr> else st)"

text \<open>\<^verbatim>\<open>w.Write\<close>: an implicit 200 when no status was written; the bytes the client still
  accepts are appended, and the write fails when it accepts fewer than given.\<close>

definition Write :: "string \<Rightarrow> sys \<Rightarrow> string option \<times> sys" where
  "Write bs st0 =
     (let st = WriteHeader 200 st0 in
      case client_room st of
        None \<Rightarrow> (None, st\<lparr>resp_Body := resp_Body st @ bs\<rparr>)
      | Some n \<Rightarrow>
          if length bs \<le> n
          then (None, st\<lparr>resp_Body := resp_Body st @ bs, client_room := Some (n - length bs)\<rparr>)
          else (Some ''write: broken pipe'',
                st\<lparr>resp_Body := resp_Body st @ take n bs, client_room := Some 0\<rparr>))"

definition Header_Set :: "string \<Rightarrow> string list \<Rightarrow> sys \<Rightarrow> sys" where
  "Header_Set k vs st = st\<lparr>resp_Header := (resp_Header st)(k \<mapsto> vs)\<rparr>"

definition Header_Add :: "string \<Rightarrow> string \<Rightarrow> sys \<Rightarrow> sys" where
  "Header_Add k v st =
     st\<lparr>resp_Header := (resp_Header st)(k \<mapsto> (case resp_Header st k of None \<Rightarrow> [] | Some vs \<Rightarrow> vs) @ [v])\<rparr>"

text \<open>\<^verbatim>\<open>http.Error\<close> and \<^verbatim>\<open>http.NotFound\<close>.\<close>

definition http_Error :: "string \<Rightarrow> nat \<Rightarrow> sys \<Rightarrow> sys" where
  "http_Error msg code st =
     snd (Write (msg @ [CHR 0x0A])
       (WriteHeader code
         (Header_Set ''X-Content-Type-Options'' [''nosniff'']
           (Header_Set ''Content-Type'' [''text/plain; charset=utf-8'']
             (st\<lparr>resp_Header := (resp_Header st)(''Content-Length'' := None)\<rparr>)))))"

definition http_NotFound :: "sys \<Rightarrow> sys" where
  "http_NotFound st = http_Error ''404 page not found'' 404 st"

text \<open>Modelled from the spec: \<^verbatim>\<open>fail500\<close> is not in the two source files; a failure is
  reported as an internal-server-level failure with a generic message to the client, and
  the error is logged with its context tag.\<close>

definition fail500 :: "string \<Rightarrow> string \<Rightarrow> sys \<Rightarrow> sys" where
  "fail500 tag err st = logError tag err (http_Error ''Internal server error'' 500 st)"

subsection \<open>The file system\<close>

text \<open>\<^verbatim>\<open>os.Stat\<close> returns no error: the path is not empty and names a file or a
  directory.\<close>

definition os_Stat :: "sys \<Rightarrow> string \<Rightarrow> bool" where
  "os_Stat st p \<longleftrightarrow> p \<noteq> [] \<and> walk (root st) (resolve (cwd st) p) \<noteq> None"

fun is_Dir :: "node \<Rightarrow> bool" where
  "is_Dir FileNode = False"
| "is_Dir (DirNode _) = True"

text \<open>\<^verbatim>\<open>os.ReadDir\<close>: the entries of a directory, each with its name and whether it is a
  directory. The empty path and a missing path cannot be opened; a file is opened and
  cannot be read as a directory.\<close>

definition os_ReadDir :: "sys \<Rightarrow> string \<Rightarrow> string + (string \<times> bool) list" where
  "os_ReadDir st p =
     (if p = [] then Inl ''open : no such file or directory''
      else
        (case walk (root st) (resolve (cwd st) p) of
           None \<Rightarrow> Inl (''open '' @ p @ '': no such file or directory'')
         | Some FileNode \<Rightarrow> Inl (''readdirent '' @ p @ '': not a directory'')
         | Some (DirNode ents) \<Rightarrow> Inr (map (\<lambda>(n, c). (n, is_Dir c)) ents)))"

definition repoExists :: "sys \<Rightarrow> string \<Rightarrow> bool" where
  "repoExists st p \<longleftrightarrow> os_Stat st (path_Join [p, ''objects''])"

text \<open>\<^verbatim>\<open>initRepo\<close>: runs \<^verbatim>\<open>git init --bare\<close> on \<^verbatim>\<open>path.Join(config.Dir, name)\<close>, then the hook
  installer when hooks are configured; the first error is returned.\<close>

definition initRepo :: "env \<Rightarrow> string \<Rightarrow> Config \<Rightarrow> sys \<Rightarrow> string option \<times> sys" where
  "initRepo ev name cfg st =
     (let fullPath = path_Join [Dir cfg, name] in
      case exec_Run ev (GitPath cfg) [''init'', ''--bare'', fullPath] (root st) of
        (Some err, r1) \<Rightarrow> (Some err, st\<lparr>root := r1\<rparr>)
      | (None, r1) \<Rightarrow>
          if AutoHooks cfg \<and> Hooks cfg
          then (case setupInDir ev fullPath r1 of (e, r2) \<Rightarrow> (e, st\<lparr>root := r2\<rparr>))
          else (None, st\<lparr>root := r1\<rparr>))"

section \<open>Credential extraction (\<^verbatim>\<open>credential.go\<close>)\<close>

text \<open>\<^verbatim>\<open>Request.BasicAuth\<close> of \<^verbatim>\<open>net/http\<close>: the header must start with \<^verbatim>\<open>Basic\<close> and a space
  (letters compared without case), the rest must decode as base64, and the decoded text is
  cut at its first colon.\<close>

definition ascii_lower :: "char \<Rightarrow> char" where
  "ascii_lower c =
     (let n = (of_char c :: nat) in if 65 \<le> n \<and> n \<le> 90 then char_of (n + 32) else c)"

definition EqualFold :: "string \<Rightarrow> string \<Rightarrow> bool" where
  "EqualFold a b \<longleftrightarrow> length a = length b \<and> map ascii_lower a = map ascii_lower b"

fun Cut_colon :: "string \<Rightarrow> (string \<times> string) option" where
  "Cut_colon [] = None"
| "Cut_colon (c # cs) =
     (if c = CHR '':'' then Some ([], cs)
      else (case Cut_colon cs of None \<Rightarrow> None | Some (before, after) \<Rightarrow> Some (c # before, after)))"

definition parseBasicAuth :: "env \<Rightarrow> string \<Rightarrow> (string \<times> string) option" where
  "parseBasicAuth ev auth =
     (if length auth < 6 then None
      else if EqualFold (take 6 auth) ''Basic '' then
        (case base64_DecodeString ev (drop 6 auth) of
           None \<Rightarrow> None
         | Some cs \<Rightarrow> Cut_colon cs)
      else None)"

definition BasicAuth :: "env \<Rightarrow> http_Request \<Rightarrow> (string \<times> string) option" where
  "BasicAuth ev r =
     (let auth = values_Get (Header r) ''Authorization'' in
      if auth = [] then None else parseBasicAuth ev auth)"

text \<open>\<^verbatim>\<open>tokenAuth\<close>: the raw header value, when it is not empty.\<close>

definition tokenAuth :: "http_Request \<Rightarrow> string option" where
  "tokenAuth r =
     (let token = values_Get (Header r) ''Authorization'' in
      if token \<noteq> [] then Some token else None)"

text \<open>\<^verbatim>\<open>getCredential\<close>: \<open>Inl\<close> is the error return.\<close>

definition getCredential :: "env \<Rightarrow> http_Request \<Rightarrow> string + Credential" where
  "getCredential ev r =
     (let cred = \<lparr>Username = [], Password = [], Token = []\<rparr> in
      case BasicAuth ev r of
        None \<Rightarrow>
          (case tokenAuth r of
             Some token \<Rightarrow> Inr (cred\<lparr>Token := token\<rparr>)
           | None \<Rightarrow> Inl ''authentication failed'')
      | Some (user, pass) \<Rightarrow> Inr (cred\<lparr>Username := user, Password := pass\<rparr>))"

section \<open>The dispatcher (\<^verbatim>\<open>ServeHTTP\<close>)\<close>

text \<open>
  A service stores which handler of the server runs it; the argument \<open>call\<close> of the two
  definitions below runs a handler on the protocol name, the request and the state, as
  \<^verbatim>\<open>svc.handler(svc.rpc, w, req)\<close> does.

  \<open>ServeHTTP_dispatch\<close> is the part of \<^verbatim>\<open>ServeHTTP\<close> after the authentication block: the
  carve-out for create and list, the automatic creation, the existence check and the
  call of the handler.
\<close>

definition ServeHTTP_dispatch ::
  "Server \<Rightarrow> env \<Rightarrow> (handler \<Rightarrow> string \<Rightarrow> Request \<Rightarrow> sys \<Rightarrow> sys) \<Rightarrow> service \<Rightarrow> Request \<Rightarrow> sys \<Rightarrow> sys" where
  "ServeHTTP_dispatch s ev call svc req st =
     (if Method (http_req req) = ''POST'' \<and> HasSuffix (RequestURI (http_req req)) ''/repo'' \<or>
         Method (http_req req) = ''GET'' \<and> HasSuffix (RequestURI (http_req req)) ''/repos''
      then call (svc_handler svc) (svc_rpc svc) req st
      else
        let st1 =
          (if \<not> repoExists st (RepoPath req) \<and> AutoCreate (config s) then
             (case initRepo ev (RepoName req) (config s) st of
                (Some err, st') \<Rightarrow> logError ''repo-init'' err st'
              | (None, st') \<Rightarrow> st')
           else st)
        in
          if \<not> repoExists st1 (RepoPath req)
          then http_NotFound (logError ''repo-init'' (RepoPath req @ '' does not exist'') st1)
          else call (svc_handler svc) (svc_rpc svc) req st1)"

text \<open>
  The authentication block of \<^verbatim>\<open>ServeHTTP\<close>: \<open>Some st'\<close> when it returns early with the
  response \<open>st'\<close>, \<open>None\<close> when the request goes on. The test \<^verbatim>\<open>!allow || err != nil\<close> is
  written as the negation of \<open>allow \<and> err = None\<close>.
\<close>

definition ServeHTTP_auth :: "Server \<Rightarrow> env \<Rightarrow> http_Request \<Rightarrow> Request \<Rightarrow> sys \<Rightarrow> sys option" where
  "ServeHTTP_auth s ev r req st =
     (if Auth (config s) then
        (case AuthFunc s of
           None \<Rightarrow> Some (WriteHeader 401 (logError ''auth'' ''no auth backend provided'' st))
         | Some authFunc \<Rightarrow>
             let authHeader = values_Get (Header r) ''Authorization'' in
             if authHeader = [] then
               Some (WriteHeader 401 (Header_Set ''WWW-Authenticate'' [''Basic realm=\"\"''] st))
             else
               (case getCredential ev r of
                  Inl err \<Rightarrow> Some (WriteHeader 401 (logError ''auth'' err st))
                | Inr cred \<Rightarrow>
                    (case authFunc cred req of
                       (allow, err) \<Rightarrow>
                         if \<not> (allow \<and> err = None) then
                           Some (WriteHeader 401
                             (logError ''auth'' (''rejected user '' @ Username cred)
                               (case err of None \<Rightarrow> st | Some e \<Rightarrow> logError ''auth'' e st)))
                         else None)))
      else None)"

text \<open>The line logged for every request: \<^verbatim>\<open>r.Method+" "+r.Host+r.URL.String()\<close>.\<close>

definition request_line :: "http_Request \<Rightarrow> string" where
  "request_line r = Method r @ '' '' @ Host r @ URL_String r"

text \<open>The request handed to the authentication block and the handlers: name and path come from the
  same namespace and leaf.\<close>

definition newRequest :: "Server \<Rightarrow> http_Request \<Rightarrow> string \<Rightarrow> string \<Rightarrow> Request" where
  "newRequest s r repoNamespace repoName =
     \<lparr>http_req = r,
      RepoName = path_Join [repoNamespace, repoName],
      RepoPath = path_Join [Dir (config s), repoNamespace, repoName]\<rparr>"

text \<open>\<^verbatim>\<open>ServeHTTP\<close>. The empty branch of the test for the list endpoint and the test of the
  name after it are one condition here.\<close>

definition ServeHTTP ::
  "Server \<Rightarrow> env \<Rightarrow> (handler \<Rightarrow> string \<Rightarrow> Request \<Rightarrow> sys \<Rightarrow> sys) \<Rightarrow> http_Request \<Rightarrow> sys \<Rightarrow> sys" where
  "ServeHTTP s ev call r st0 =
     (let st = logInfo ''request'' (request_line r) st0 in
      case findService (srv_services s) r of
        (None, _) \<Rightarrow> http_Error ''Forbidden'' 403 st
      | (Some svc, repoUrlPath) \<Rightarrow>
          (case getNamespaceAndRepo ev repoUrlPath of
             (repoNamespace, repoName) \<Rightarrow>
               if \<not> (Method r = ''GET'' \<and> HasSuffix (RequestURI r) ''/repos'') \<and> repoName = [] then
                 WriteHeader 400 (logError ''auth'' ''no repo name provided'' st)
               else
                 let req = newRequest s r repoNamespace repoName in
                   (case ServeHTTP_auth s ev r req st of
                      Some st' \<Rightarrow> st'
                    | None \<Rightarrow> ServeHTTP_dispatch s ev call svc req st)))"

section \<open>The protocol framer\<close>

fun hex_digit :: "nat \<Rightarrow> char" where
  "hex_digit n = (''0123456789abcdef'') ! (n mod 16)"

fun to_hex :: "nat \<Rightarrow> string" where
  "to_hex n = (if n < 16 then [hex_digit n] else to_hex (n div 16) @ [hex_digit n])"

text \<open>The verb \<^verbatim>\<open>%04x\<close>: lowercase hexadecimal, padded with zeros to four characters.\<close>

definition hex04 :: "nat \<Rightarrow> string" where
  "hex04 n = replicate (4 - length (to_hex n)) (CHR ''0'') @ to_hex n"

text \<open>Modelled from the spec: \<^verbatim>\<open>packLine\<close> and \<^verbatim>\<open>packFlush\<close> are not in the two source
  files. A line is a 4-character lowercase-hexadecimal, zero-padded length prefix,
  counting the prefix's own 4 bytes plus the payload length, followed immediately by the
  payload bytes; the flush marker is the literal 4-byte sequence \<^verbatim>\<open>0000\<close>.\<close>

definition packLine :: "string \<Rightarrow> sys \<Rightarrow> string option \<times> sys" where
  "packLine payload st = Write (hex04 (length payload + 4) @ payload) st"

definition packFlush :: "sys \<Rightarrow> string option \<times> sys" where
  "packFlush st = Write ''0000'' st"

section \<open>The process bridge\<close>

text \<open>\<^verbatim>\<open>exec.Cmd\<close>: the command line and, once started, the process id, which is also the
  id of its process group.\<close>

record Cmd =
  cmd_name :: string
  cmd_args :: "string list"
  cmd_pid :: "nat option"

definition gitCommand :: "string \<Rightarrow> string list \<Rightarrow> Cmd" where
  "gitCommand name args = \<lparr>cmd_name = name, cmd_args = args, cmd_pid = None\<rparr>"

text \<open>\<^verbatim>\<open>cmd.Start\<close>: on success a new process group is alive.\<close>

definition cmd_Start :: "env \<Rightarrow> Cmd \<Rightarrow> sys \<Rightarrow> string option \<times> Cmd \<times> sys" where
  "cmd_Start ev cmd st =
     (case Start_err ev (cmd_name cmd) (cmd_args cmd) of
        Some err \<Rightarrow> (Some err, cmd, st)
      | None \<Rightarrow>
          (None, cmd\<lparr>cmd_pid := Some (length (pgroups st))\<rparr>, st\<lparr>pgroups := pgroups st @ [Alive]\<rparr>))"

text \<open>Modelled from the spec: \<^verbatim>\<open>cleanUpProcessGroup\<close> is not in the two source files; the
  entire process group of the command is terminated.\<close>

definition cleanUpProcessGroup :: "Cmd \<Rightarrow> sys \<Rightarrow> sys" where
  "cleanUpProcessGroup cmd st =
     (case cmd_pid cmd of
        None \<Rightarrow> st
      | Some pid \<Rightarrow> st\<lparr>pgroups := (pgroups st)[pid := Terminated]\<rparr>)"

text \<open>
  The calls a handler defers. A handler's body returns the state at its \<^verbatim>\<open>return\<close>
  together with the calls deferred up to there, the last deferred first; they run in that
  order when the handler returns. Closing a pipe changes nothing that the state records.
\<close>

datatype deferred = Defer_cleanUpProcessGroup Cmd | Defer_stdin_Close | Defer_pipe_Close

fun run_deferred :: "deferred list \<Rightarrow> sys \<Rightarrow> sys" where
  "run_deferred [] st = st"
| "run_deferred (Defer_cleanUpProcessGroup cmd # ds) st = run_deferred ds (cleanUpProcessGroup cmd st)"
| "run_deferred (Defer_stdin_Close # ds) st = run_deferred ds st"
| "run_deferred (Defer_pipe_Close # ds) st = run_deferred ds st"

text \<open>\<^verbatim>\<open>io.Copy\<close> into the response: what was read is written; a failed write ends the copy
  with its error, otherwise the error that ended the read (if any) is returned.
  \<^verbatim>\<open>newWriteFlusher\<close> (not in the two source files) flushes after each write, which
  changes no byte of the response.\<close>

definition io_Copy_resp :: "string \<times> string option \<Rightarrow> sys \<Rightarrow> string option \<times> sys" where
  "io_Copy_resp src st =
     (case Write (fst src) st of
        (Some err, st') \<Rightarrow> (Some err, st')
      | (None, st') \<Rightarrow> (snd src, st'))"

text \<open>\<^verbatim>\<open>io.Copy\<close> into the standard input of the process: the error and the bytes that
  reached the process.\<close>

definition io_Copy_stdin :: "env \<Rightarrow> string \<times> string option \<Rightarrow> string option \<times> string" where
  "io_Copy_stdin ev src =
     (case stdin_room ev of
        None \<Rightarrow> (snd src, fst src)
      | Some n \<Rightarrow>
          if length (fst src) \<le> n then (snd src, fst src)
          else (Some ''write: broken pipe'', take n (fst src)))"

definition getInfoRefs_body :: "Server \<Rightarrow> env \<Rightarrow> Request \<Rightarrow> sys \<Rightarrow> sys \<times> deferred list" where
  "getInfoRefs_body s ev r st =
     (let rpc = values_Get (URL_Query (http_req r)) ''service'' in
      if \<not> (rpc = ''git-upload-pack'' \<or> rpc = ''git-receive-pack'') then
        (http_Error ''Not Found'' 404 st, [])
      else
        let cmd = gitCommand (GitPath (config s))
                    [subCommand ev rpc, ''--stateless-rpc'', ''--advertise-refs'', RepoPath r]
        in
        case cmd_Start ev cmd st of
          (Some err, _, st1) \<Rightarrow> (fail500 ''get-info-refs'' err st1, [])
        | (None, cmd1, st1) \<Rightarrow>
            let ds = [Defer_cleanUpProcessGroup cmd1];
                st2 = WriteHeader 200
                        (Header_Add ''Cache-Control'' ''no-cache''
                          (Header_Add ''Content-Type'' (''application/x-'' @ rpc @ ''-advertisement'') st1))
            in
            case packLine (''# service='' @ rpc @ [CHR 0x0A]) st2 of
              (Some err, st3) \<Rightarrow> (logError ''get-info-refs'' err st3, ds)
            | (None, st3) \<Rightarrow>
                (case packFlush st3 of
                   (Some err, st4) \<Rightarrow> (logError ''get-info-refs'' err st4, ds)
                 | (None, st4) \<Rightarrow>
                     (case io_Copy_resp (proc_output ev (cmd_args cmd1) []) st4 of
                        (Some err, st5) \<Rightarrow> (logError ''get-info-refs'' err st5, ds)
                      | (None, st5) \<Rightarrow>
                          (case Wait_err ev of
                             Some err \<Rightarrow> (logError ''get-info-refs'' err st5, ds)
                           | None \<Rightarrow> (st5, ds)))))"

definition getInfoRefs :: "Server \<Rightarrow> env \<Rightarrow> string \<Rightarrow> Request \<Rightarrow> sys \<Rightarrow> sys" where
  "getInfoRefs s ev u r st = (case getInfoRefs_body s ev r st of (st', ds) \<Rightarrow> run_deferred ds st')"

text \<open>The first statements of \<^verbatim>\<open>postRPC\<close>: the request body as a stream, through the gzip
  reader when the request says so; \<open>Inl\<close> is the error of \<^verbatim>\<open>gzip.NewReader\<close>.\<close>

definition postRPC_reader :: "env \<Rightarrow> Request \<Rightarrow> string + string \<times> string option" where
  "postRPC_reader ev r =
     (if values_Get (Header (http_req r)) ''Content-Encoding'' = ''gzip''
      then gzip_NewReader ev (Body (http_req r))
      else Inr (Body (http_req r), None))"

definition postRPC_body :: "Server \<Rightarrow> env \<Rightarrow> string \<Rightarrow> Request \<Rightarrow> sys \<Rightarrow> sys \<times> deferred list" where
  "postRPC_body s ev rpc r st =
     (case postRPC_reader ev r of
        Inl err \<Rightarrow> (fail500 ''post-rpc'' err st, [])
      | Inr body \<Rightarrow>
          let cmd = gitCommand (GitPath (config s)) [subCommand ev rpc, ''--stateless-rpc'', RepoPath r];
              ds0 = [Defer_pipe_Close]
          in
          case StdinPipe_err ev of
            Some err \<Rightarrow> (fail500 ''post-rpc'' err st, ds0)
          | None \<Rightarrow>
              let ds1 = Defer_stdin_Close # ds0 in
              case cmd_Start ev cmd st of
                (Some err, _, st1) \<Rightarrow> (fail500 ''post-rpc'' err st1, ds1)
              | (None, cmd1, st1) \<Rightarrow>
                  let ds2 = Defer_cleanUpProcessGroup cmd1 # ds1 in
                  case io_Copy_stdin ev body of
                    (Some err, _) \<Rightarrow> (fail500 ''post-rpc'' err st1, ds2)
                  | (None, fed) \<Rightarrow>
                      let st2 = WriteHeader 200
                                  (Header_Add ''Cache-Control'' ''no-cache''
                                    (Header_Add ''Content-Type'' (''application/x-'' @ rpc @ ''-result'') st1))
                      in
                      (case io_Copy_resp (proc_output ev (cmd_args cmd1) fed) st2 of
                         (Some err, st3) \<Rightarrow> (logError ''post-rpc'' err st3, ds2)
                       | (None, st3) \<Rightarrow>
                           (case Wait_err ev of
                              Some err \<Rightarrow> (logError ''post-rpc'' err st3, ds2)
                            | None \<Rightarrow> (st3, ds2))))"

definition postRPC :: "Server \<Rightarrow> env \<Rightarrow> string \<Rightarrow> Request \<Rightarrow> sys \<Rightarrow> sys" where
  "postRPC s ev rpc r st = (case postRPC_body s ev rpc r st of (st', ds) \<Rightarrow> run_deferred ds st')"

text \<open>
  When each handler reaches \<^verbatim>\<open>cmd.Start\<close> and the call returns no error: for
  \<^verbatim>\<open>getInfoRefs\<close> the service name is one of the two protocols; for \<^verbatim>\<open>postRPC\<close> the gzip
  reader and the standard-input pipe were set up.
\<close>

definition getInfoRefs_starts :: "Server \<Rightarrow> env \<Rightarrow> Request \<Rightarrow> bool" where
  "getInfoRefs_starts s ev r \<longleftrightarrow>
     (let rpc = values_Get (URL_Query (http_req r)) ''service'' in
      (rpc = ''git-upload-pack'' \<or> rpc = ''git-receive-pack'') \<and>
      Start_err ev (GitPath (config s))
        [subCommand ev rpc, ''--stateless-rpc'', ''--advertise-refs'', RepoPath r] = None)"

definition postRPC_starts :: "Server \<Rightarrow> env \<Rightarrow> string \<Rightarrow> Request \<Rightarrow> bool" where
  "postRPC_starts s ev rpc r \<longleftrightarrow>
     (case postRPC_reader ev r of
        Inl err \<Rightarrow> False
      | Inr body \<Rightarrow>
          StdinPipe_err ev = None \<and>
          Start_err ev (GitPath (config s)) [subCommand ev rpc, ''--stateless-rpc'', RepoPath r] = None)"

section \<open>The repository handlers\<close>

text \<open>Modelled from the spec: \<^verbatim>\<open>formatResponse\<close> is not in the two source files; the
  envelope is sent as JSON and the HTTP status mirrors the code.\<close>

definition formatResponse :: "KitResponse \<Rightarrow> nat \<Rightarrow> sys \<Rightarrow> sys" where
  "formatResponse body status st = (WriteHeader status st)\<lparr>resp_Json := Some body\<rparr>"

definition createRepo :: "Server \<Rightarrow> env \<Rightarrow> string \<Rightarrow> Request \<Rightarrow> sys \<Rightarrow> sys" where
  "createRepo s ev u req st =
     (if \<not> repoExists st (RepoPath req) then
        (case initRepo ev (RepoName req) (config s) st of
           (Some err, st1) \<Rightarrow> fail500 ''repo-init'' err st1
         | (None, st1) \<Rightarrow>
             formatResponse \<lparr>Code = 201, Data = KitRepoResponse (RepoName req)\<rparr> 201 st1)
      else formatResponse \<lparr>Code = 409, Data = KitRepoResponse (RepoName req)\<rparr> 409 st)"

text \<open>The inner loop of \<^verbatim>\<open>listRepo\<close>, over the entries of one first-level directory.\<close>

fun listRepo_subDirs :: "string \<Rightarrow> (string \<times> bool) list \<Rightarrow> string list \<Rightarrow> string list" where
  "listRepo_subDirs repoDir [] repos = repos"
| "listRepo_subDirs repoDir ((name, isDir) # ds) repos =
     listRepo_subDirs repoDir ds
       (if isDir \<and> HasSuffix name ''.git'' then repos @ [path_Join [repoDir, name]] else repos)"

text \<open>The outer loop, over the entries of the root directory. The second-level directory is
  read with \<^verbatim>\<open>os.ReadDir(repoDir.Name())\<close>: the argument is the bare entry name.\<close>

fun listRepo_dirs :: "sys \<Rightarrow> (string \<times> bool) list \<Rightarrow> string list \<Rightarrow> string + string list" where
  "listRepo_dirs st [] repos = Inr repos"
| "listRepo_dirs st ((name, isDir) # dirs) repos =
     (if isDir then
        (case os_ReadDir st name of
           Inl err \<Rightarrow> Inl err
         | Inr subDirs \<Rightarrow> listRepo_dirs st dirs (listRepo_subDirs name subDirs repos))
      else listRepo_dirs st dirs repos)"

text \<open>\<^verbatim>\<open>listRepo\<close>. Calling a nil \<^verbatim>\<open>FilterRepoFunc\<close> panics.\<close>

definition listRepo :: "Server \<Rightarrow> env \<Rightarrow> string \<Rightarrow> Request \<Rightarrow> sys \<Rightarrow> sys" where
  "listRepo s ev u r st =
     (let fullPath = Dir (config s) in
      case os_ReadDir st fullPath of
        Inl err \<Rightarrow> fail500 ''list repo'' err st
      | Inr dirs \<Rightarrow>
          (case listRepo_dirs st dirs [] of
             Inl err \<Rightarrow> fail500 ''list repo'' err st
           | Inr repos \<Rightarrow>
               (case FilterRepoFunc s of
                  None \<Rightarrow> st\<lparr>panicked := Some ''nil function call''\<rparr>
                | Some filterRepos \<Rightarrow>
                    formatResponse
                      \<lparr>Code = 200, Data = KitListRepoResponse (filterRepos repos r)\<rparr> 200 st)))"

text \<open>\<^verbatim>\<open>os.RemoveAll\<close> on the directory tree.\<close>

definition upd_entry :: "string \<Rightarrow> (node \<Rightarrow> node) \<Rightarrow> (string \<times> node) list \<Rightarrow> (string \<times> node) list" where
  "upd_entry e f ents = map (\<lambda>x. if fst x = e then (fst x, f (snd x)) else x) ents"

primrec remove_path :: "string list \<Rightarrow> node \<Rightarrow> node" where
  "remove_path [] = (\<lambda>n. n)"
| "remove_path (e # es) =
     (\<lambda>n. case n of
        FileNode \<Rightarrow> FileNode
      | DirNode ents \<Rightarrow>
          if es = [] then DirNode (filter (\<lambda>x. fst x \<noteq> e) ents)
          else DirNode (upd_entry e (remove_path es) ents))"

definition os_RemoveAll :: "env \<Rightarrow> string \<Rightarrow> sys \<Rightarrow> string option \<times> sys" where
  "os_RemoveAll ev p st =
     (case RemoveAll_err ev p of
        Some err \<Rightarrow> (Some err, st)
      | None \<Rightarrow> (None, st\<lparr>root := remove_path (resolve (cwd st) p) (root st)\<rparr>))"

definition deleteRepo :: "Server \<Rightarrow> env \<Rightarrow> string \<Rightarrow> Request \<Rightarrow> sys \<Rightarrow> sys" where
  "deleteRepo s ev u r st =
     (if RepoName r = [] then
        formatResponse \<lparr>Code = 400, Data = KitRepoResponse (RepoName r)\<rparr> 400 st
      else
        let fullPath = path_Join [Dir (config s), RepoName r] in
        if \<not> os_Stat st fullPath then
          fail500 ''find repo'' (''lstat '' @ fullPath @ '': no such file or directory'') st
        else
          (case os_RemoveAll ev fullPath st of
             (Some err, st1) \<Rightarrow> fail500 ''find repo'' err st1
           | (None, st1) \<Rightarrow>
               formatResponse \<lparr>Code = 202, Data = KitRepoResponse (RepoName r)\<rparr> 202 st1))"

text \<open>The handlers as \<^verbatim>\<open>New\<close> binds them to the service table.\<close>

definition handlers :: "Server \<Rightarrow> env \<Rightarrow> handler \<Rightarrow> string \<Rightarrow> Request \<Rightarrow> sys \<Rightarrow> sys" where
  "handlers s ev h =
     (case h of
        GetInfoRefs \<Rightarrow> getInfoRefs s ev
      | PostRPC \<Rightarrow> postRPC s ev
      | ListRepo \<Rightarrow> listRepo s ev
      | CreateRepo \<Rightarrow> createRepo s ev
      | DeleteRepo \<Rightarrow> deleteRepo s ev)"

section \<open>Concrete servers, requests and environments\<close>

text \<open>The instances at which the theorems below are evaluated.\<close>

primrec mkdir_all :: "string list \<Rightarrow> node \<Rightarrow> node" where
  "mkdir_all [] = (\<lambda>n. n)"
| "mkdir_all (e # es) =
     (\<lambda>n. case n of
        FileNode \<Rightarrow> FileNode
      | DirNode ents \<Rightarrow>
          (case map_of ents e of
             None \<Rightarrow> DirNode (ents @ [(e, mkdir_all es (DirNode []))])
           | Some c \<Rightarrow> DirNode (upd_entry e (mkdir_all es) ents)))"

text \<open>An executable whose \<^verbatim>\<open>init --bare\<close> creates the \<^verbatim>\<open>objects\<close> directory of the
  repository and fails when it cannot, one that cannot be run, and one that exits with
  success and does nothing (as \<^verbatim>\<open>GitPath = "true"\<close> would).\<close>

definition git_init_ok :: "string \<Rightarrow> string list \<Rightarrow> node \<Rightarrow> string option \<times> node" where
  "git_init_ok name args r =
     (case args of
        [a, b, p] \<Rightarrow>
          if a = ''init'' \<and> b = ''--bare'' then
            (let objects = resolve ''/'' (path_Join [p, ''objects'']);
                 r1 = mkdir_all objects r
             in if walk r1 objects \<noteq> None then (None, r1)
                else (Some ''exit status 128'', r))
          else (Some ''exit status 129'', r)
      | _ \<Rightarrow> (Some ''exit status 129'', r))"

definition git_init_fails :: "string \<Rightarrow> string list \<Rightarrow> node \<Rightarrow> string option \<times> node" where
  "git_init_fails name args r = (Some ''exec: not found'', r)"

definition git_does_nothing :: "string \<Rightarrow> string list \<Rightarrow> node \<Rightarrow> string option \<times> node" where
  "git_does_nothing name args r = (None, r)"

text \<open>Modelled from the spec: \<^verbatim>\<open>getNamespaceAndRepo\<close> is not in the two source files; the
  path is parsed into a namespace prefix and a leaf name. Here the leading slash is
  dropped, the leaf is the last element and the namespace is what stands before it.\<close>

definition namespace_and_leaf :: "string \<Rightarrow> string \<times> string" where
  "namespace_and_leaf p =
     (let blocks = split_slash (if is_rooted p then tl p else p) in
      if length blocks < 2 then ([], hd blocks)
      else (join_slash (butlast blocks), last blocks))"

definition env0 :: env where
  "env0 =
     \<lparr>getNamespaceAndRepo = namespace_and_leaf,
      subCommand = drop 4,
      base64_DecodeString =
        (\<lambda>x. if x = ''dTpw'' then Some ''u:p'' else if x = ''Og=='' then Some '':'' else None),
      exec_Run = git_init_ok,
      setupInDir = (\<lambda>p r. (None, r)),
      Start_err = (\<lambda>name args. None),
      StdinPipe_err = None,
      proc_output = (\<lambda>args input. (''0000'', None)),
      Wait_err = None,
      stdin_room = None,
      gzip_NewReader = (\<lambda>b. Inl ''gzip: invalid header''),
      RemoveAll_err = (\<lambda>p. None)\<rparr>"

definition cfg0 :: Config where
  "cfg0 = \<lparr>Dir = ''/srv/git'', GitPath = [], Auth = False, AutoCreate = False,
            AutoHooks = False, Hooks = False\<rparr>"

text \<open>A server state before any request: nothing written, a client that stays
  connected, an empty log, and no process.\<close>

definition sys0 :: "node \<Rightarrow> string \<Rightarrow> sys" where
  "sys0 r wd =
     \<lparr>resp_Header = Map.empty, resp_Status = 0, resp_Body = [], resp_Json = None,
      panicked = None, client_room = None, log = [], root = r, cwd = wd, pgroups = []\<rparr>"

text \<open>A request as the HTTP server hands it over: method, path and raw query (the
  request URI is the path followed by the query), and the headers.\<close>

definition request :: "string \<Rightarrow> string \<Rightarrow> string \<Rightarrow> (string \<rightharpoonup> string list) \<Rightarrow> http_Request" where
  "request m p q h =
     \<lparr>Method = m, Host = ''localhost'', URL_Path = p,
      URL_String = (if q = [] then p else p @ ''?'' @ q),
      URL_Query = Map.empty,
      RequestURI = (if q = [] then p else p @ ''?'' @ q),
      Header = h, Body = []\<rparr>"

text \<open>A request for the advertisement of \<^verbatim>\<open>git-upload-pack\<close> and a \<^verbatim>\<open>git-upload-pack\<close>
  request on the repository \<^verbatim>\<open>ns/a.git\<close>, as \<^verbatim>\<open>ServeHTTP\<close> hands them to the handlers.\<close>

definition req_info_refs :: Request where
  "req_info_refs =
     \<lparr>http_req = (request ''GET'' ''/ns/a.git/info/refs'' ''service=git-upload-pack'' Map.empty)
                    \<lparr>URL_Query := [''service'' \<mapsto> [''git-upload-pack'']]\<rparr>,
      RepoName = ''ns/a.git'', RepoPath = ''/srv/git/ns/a.git''\<rparr>"

definition req_upload_pack :: Request where
  "req_upload_pack =
     \<lparr>http_req = (request ''POST'' ''/ns/a.git/git-upload-pack'' [] Map.empty)\<lparr>Body := ''0000''\<rparr>,
      RepoName = ''ns/a.git'', RepoPath = ''/srv/git/ns/a.git''\<rparr>"

text \<open>Servers that require authentication, with a decision capability (or none), and two
  capabilities: one that denies everybody and one whose backend fails.\<close>

definition srv_auth :: "(Credential \<Rightarrow> Request \<Rightarrow> bool \<times> string option) option \<Rightarrow> Server" where
  "srv_auth f = (New (cfg0\<lparr>Auth := True\<rparr>))\<lparr>AuthFunc := f\<rparr>"

definition deny_all :: "Credential \<Rightarrow> Request \<Rightarrow> bool \<times> string option" where
  "deny_all cred req = (False, None)"

definition backend_down :: "Credential \<Rightarrow> Request \<Rightarrow> bool \<times> string option" where
  "backend_down cred req = (True, Some ''backend down'')"

text \<open>A push to \<^verbatim>\<open>ns/a.git\<close> with given headers, a server that creates missing
  repositories, an environment whose executable cannot be run and one whose executable
  does nothing, the request
  \<^verbatim>\<open>ServeHTTP\<close> hands to \<^verbatim>\<open>createRepo\<close> for \<^verbatim>\<open>POST /ns/a.git/repo\<close>, and the one it hands to
  \<^verbatim>\<open>listRepo\<close> for \<^verbatim>\<open>GET /repos\<close> on a server whose filter keeps every repository.\<close>

definition req_push :: "(string \<rightharpoonup> string list) \<Rightarrow> http_Request" where
  "req_push h = request ''POST'' ''/ns/a.git/git-receive-pack'' [] h"

definition srv_auto :: Server where
  "srv_auto = New (cfg0\<lparr>AutoCreate := True\<rparr>)"

definition env_no_git :: env where
  "env_no_git = env0\<lparr>exec_Run := git_init_fails\<rparr>"

definition env_idle_git :: env where
  "env_idle_git = env0\<lparr>exec_Run := git_does_nothing\<rparr>"

definition req_create :: Request where
  "req_create =
     \<lparr>http_req = request ''POST'' ''/ns/a.git/repo'' [] Map.empty,
      RepoName = ''ns/a.git'', RepoPath = ''/srv/git/ns/a.git''\<rparr>"

definition srv_list :: Server where
  "srv_list = (New cfg0)\<lparr>FilterRepoFunc := Some (\<lambda>repos r. repos)\<rparr>"

definition req_list :: Request where
  "req_list =
     \<lparr>http_req = request ''GET'' ''/repos'' [] Map.empty, RepoName = [], RepoPath = ''/srv/git''\<rparr>"

text \<open>A disk with the repository \<^verbatim>\<open>/srv/git/ns/a.git\<close> under the root directory of the
  server, and a directory \<^verbatim>\<open>/home/ns/other.git\<close> outside it.\<close>

definition disk0 :: node where
  "disk0 = DirNode
     [(''srv'', DirNode [(''git'', DirNode [(''ns'', DirNode [(''a.git'', DirNode [(''objects'', DirNode [])])])])]),
      (''home'', DirNode [(''ns'', DirNode [(''other.git'', DirNode [])])])]"

section \<open>What the handlers leave untouched\<close>

lemma pgroups_logError [simp]: "pgroups (logError t e st) = pgroups st"
  by (simp add: logError_def)

lemma pgroups_WriteHeader [simp]: "pgroups (WriteHeader c st) = pgroups st"
  by (simp add: WriteHeader_def)

lemma pgroups_Header_Add [simp]: "pgroups (Header_Add k v st) = pgroups st"
  by (simp add: Header_Add_def)

lemma pgroups_Header_Set [simp]: "pgroups (Header_Set k v st) = pgroups st"
  by (simp add: Header_Set_def)

lemma pgroups_Write: "Write bs st = (e, st') \<Longrightarrow> pgroups st' = pgroups st"
  by (auto simp: Write_def Let_def split: option.splits if_splits)

lemma pgroups_snd_Write [simp]: "pgroups (snd (Write bs st)) = pgroups st"
  by (cases "Write bs st") (simp add: pgroups_Write)

lemma pgroups_http_Error [simp]: "pgroups (http_Error m c st) = pgroups st"
  by (simp add: http_Error_def)

lemma pgroups_fail500 [simp]: "pgroups (fail500 t e st) = pgroups st"
  by (simp add: fail500_def)

lemma pgroups_packLine: "packLine p st = (e, st') \<Longrightarrow> pgroups st' = pgroups st"
  by (simp add: packLine_def pgroups_Write)

lemma pgroups_packFlush: "packFlush st = (e, st') \<Longrightarrow> pgroups st' = pgroups st"
  by (simp add: packFlush_def pgroups_Write)

lemma pgroups_io_Copy_resp: "io_Copy_resp src st = (e, st') \<Longrightarrow> pgroups st' = pgroups st"
  by (auto simp: io_Copy_resp_def split: prod.splits option.splits dest: pgroups_Write)

lemma repoExists_logError [simp]: "repoExists (logError t e st) p = repoExists st p"
  by (simp add: repoExists_def os_Stat_def logError_def)

lemma repoExists_logInfo [simp]: "repoExists (logInfo t e st) p = repoExists st p"
  by (simp add: repoExists_def os_Stat_def logInfo_def)

lemma initRepo_keeps:
  "initRepo ev n cfg st = (e, st1) \<Longrightarrow> resp_Status st1 = resp_Status st \<and> log st1 = log st"
  by (auto simp: initRepo_def Let_def split: prod.splits option.splits if_splits)

lemma status_http_Error: "resp_Status st = 0 \<Longrightarrow> 0 < c \<Longrightarrow> resp_Status (http_Error m c st) = c"
  by (simp add: http_Error_def Write_def WriteHeader_def Header_Set_def Let_def split: option.splits)

lemma log_http_Error [simp]: "log (http_Error m c st) = log st"
  by (simp add: http_Error_def Write_def WriteHeader_def Header_Set_def Let_def split: option.splits)

lemma root_http_Error [simp]: "root (http_Error m c st) = root st"
  by (simp add: http_Error_def Write_def WriteHeader_def Header_Set_def Let_def split: option.splits)

lemma cwd_http_Error [simp]: "cwd (http_Error m c st) = cwd st"
  by (simp add: http_Error_def Write_def WriteHeader_def Header_Set_def Let_def split: option.splits)

lemma repoExists_root:
  "root st' = root st \<Longrightarrow> cwd st' = cwd st \<Longrightarrow> repoExists st' p = repoExists st p"
  by (simp add: repoExists_def os_Stat_def)

lemma http_req_newRequest [simp]: "http_req (newRequest s r ns name) = r"
  by (simp add: newRequest_def)

section \<open>The process group of a request\<close>

lemma cleanUp_started:
  "pgroups st' = pgroups st @ [Alive] \<Longrightarrow> cmd_pid cmd = Some (length (pgroups st)) \<Longrightarrow>
   pgroups (cleanUpProcessGroup cmd st') = pgroups st @ [Terminated]"
  by (simp add: cleanUpProcessGroup_def)

text \<open>Once the process is started, every \<^verbatim>\<open>return\<close> of \<^verbatim>\<open>getInfoRefs\<close> is reached with the
  group alive and the clean-up deferred.\<close>

lemma getInfoRefs_body_started:
  assumes "getInfoRefs_starts s ev r" and "getInfoRefs_body s ev r st = (st', ds)"
  shows "pgroups st' = pgroups st @ [Alive] \<and>
         (\<exists>cmd. ds = [Defer_cleanUpProcessGroup cmd] \<and> cmd_pid cmd = Some (length (pgroups st)))"
  using assms
  unfolding getInfoRefs_starts_def getInfoRefs_body_def Let_def cmd_Start_def gitCommand_def
  by (auto split: prod.splits option.splits if_splits
      dest!: pgroups_packLine pgroups_packFlush pgroups_io_Copy_resp)

lemma getInfoRefs_body_not_started:
  assumes "\<not> getInfoRefs_starts s ev r" and "getInfoRefs_body s ev r st = (st', ds)"
  shows "pgroups st' = pgroups st \<and> ds = []"
  using assms
  unfolding getInfoRefs_starts_def getInfoRefs_body_def Let_def cmd_Start_def gitCommand_def
  by (auto split: prod.splits option.splits if_splits)

lemma postRPC_body_started:
  assumes "postRPC_starts s ev rpc r" and "postRPC_body s ev rpc r st = (st', ds)"
  shows "pgroups st' = pgroups st @ [Alive] \<and>
         (\<exists>cmd. ds = [Defer_cleanUpProcessGroup cmd, Defer_stdin_Close, Defer_pipe_Close] \<and>
                cmd_pid cmd = Some (length (pgroups st)))"
  using assms
  unfolding postRPC_starts_def postRPC_body_def Let_def cmd_Start_def gitCommand_def
  by (auto split: prod.splits option.splits if_splits sum.splits
      dest!: pgroups_io_Copy_resp)

lemma postRPC_body_not_started:
  assumes "\<not> postRPC_starts s ev rpc r" and "postRPC_body s ev rpc r st = (st', ds)"
  shows "pgroups st' = pgroups st \<and>
         ds \<in> {[], [Defer_pipe_Close], [Defer_stdin_Close, Defer_pipe_Close]}"
  using assms
  unfolding postRPC_starts_def postRPC_body_def Let_def cmd_Start_def gitCommand_def
  by (auto split: prod.splits option.splits if_splits sum.splits)

text \<open>
  C1. When \<^verbatim>\<open>getInfoRefs\<close> or \<^verbatim>\<open>postRPC\<close> has started its subprocess, the process group it
  spawned is terminated in the state the handler returns, whatever happens after the
  start: for every client (one that disconnects after any number of bytes makes the
  pkt-line write, the flush or the copy fail), every output and read error of the
  process, every result of the wait and every standard input. The groups that were there
  before the request are as they were, and a handler that does not start a process spawns
  nothing.
\<close>

theorem spawned_group_terminated_on_return:
  "pgroups (getInfoRefs s ev u r st) =
     (if getInfoRefs_starts s ev r then pgroups st @ [Terminated] else pgroups st) \<and>
   pgroups (postRPC s ev rpc r st) =
     (if postRPC_starts s ev rpc r then pgroups st @ [Terminated] else pgroups st)"
proof
  obtain st' ds where b: "getInfoRefs_body s ev r st = (st', ds)"
    by (cases "getInfoRefs_body s ev r st")
  show "pgroups (getInfoRefs s ev u r st) =
     (if getInfoRefs_starts s ev r then pgroups st @ [Terminated] else pgroups st)"
  proof (cases "getInfoRefs_starts s ev r")
    case True
    from getInfoRefs_body_started [OF True b] show ?thesis
      using True b by (auto simp: getInfoRefs_def cleanUp_started)
  next
    case False
    from getInfoRefs_body_not_started [OF False b] show ?thesis
      using False b by (auto simp: getInfoRefs_def)
  qed
next
  obtain st' ds where b: "postRPC_body s ev rpc r st = (st', ds)"
    by (cases "postRPC_body s ev rpc r st")
  show "pgroups (postRPC s ev rpc r st) =
     (if postRPC_starts s ev rpc r then pgroups st @ [Terminated] else pgroups st)"
  proof (cases "postRPC_starts s ev rpc r")
    case True
    from postRPC_body_started [OF True b] show ?thesis
      using True b by (auto simp: postRPC_def cleanUp_started)
  next
    case False
    from postRPC_body_not_started [OF False b] show ?thesis
      using False b by (auto simp: postRPC_def)
  qed
qed

text \<open>The theorem at a client that disconnects after ten bytes of the advertisement, and
  at a process whose wait fails after a complete \<^verbatim>\<open>git-upload-pack\<close> exchange.\<close>

theorem spawned_group_terminated_on_return_witness:
  "getInfoRefs_starts (New cfg0) env0 req_info_refs \<and>
   postRPC_starts (New cfg0) (env0\<lparr>Wait_err := Some ''exit status 128''\<rparr>) ''git-upload-pack'' req_upload_pack \<and>
   pgroups (getInfoRefs (New cfg0) env0 [] req_info_refs
              ((sys0 (DirNode []) ''/'')\<lparr>client_room := Some 10\<rparr>)) = [Terminated] \<and>
   pgroups (postRPC (New cfg0) (env0\<lparr>Wait_err := Some ''exit status 128''\<rparr>) ''git-upload-pack''
              req_upload_pack (sys0 (DirNode []) ''/'')) = [Terminated]"
proof -
  have a: "getInfoRefs_starts (New cfg0) env0 req_info_refs"
    by (simp add: getInfoRefs_starts_def req_info_refs_def request_def values_Get_def env0_def)
  have b: "postRPC_starts (New cfg0) (env0\<lparr>Wait_err := Some ''exit status 128''\<rparr>)
             ''git-upload-pack'' req_upload_pack"
    by (simp add: postRPC_starts_def postRPC_reader_def req_upload_pack_def request_def
        values_Get_def env0_def)
  show ?thesis
    using a b
      spawned_group_terminated_on_return [of "New cfg0" env0 "[]" req_info_refs
        "(sys0 (DirNode []) ''/'')\<lparr>client_room := Some 10\<rparr>"
        "''git-upload-pack''"]
      spawned_group_terminated_on_return [of "New cfg0" "env0\<lparr>Wait_err := Some ''exit status 128''\<rparr>"
        "[]" req_upload_pack "sys0 (DirNode []) ''/''" "''git-upload-pack''"]
    by (simp add: sys0_def)
qed

section \<open>The handshake of the advertisement\<close>

lemma prefix_upload_pack:
  "hex04 (length (''# service=git-upload-pack'' @ [CHR 0x0A]) + 4) = ''001e''"
  by (simp add: hex04_def numeral_2_eq_2)

text \<open>
  C4. For the service name \<^verbatim>\<open>git-upload-pack\<close>, a started subprocess and a client that
  stays connected, \<^verbatim>\<open>getInfoRefs\<close> appends to the response exactly the bytes
  \<^verbatim>\<open>001e# service=git-upload-pack\<close>, a newline and \<^verbatim>\<open>0000\<close>, and after them the output of the
  subprocess: the prefix \<^verbatim>\<open>001e\<close> is the four-character lowercase hexadecimal of 30, the 26
  bytes of the payload plus the 4 of the prefix, and the flush marker carries no payload.
\<close>

theorem handshake_upload_pack:
  assumes "values_Get (URL_Query (http_req r)) ''service'' = ''git-upload-pack''"
    and "getInfoRefs_starts s ev r"
    and "client_room st = None"
  shows "resp_Body (getInfoRefs s ev u r st) =
           resp_Body st @ ''001e# service=git-upload-pack'' @ [CHR 0x0A] @ ''0000'' @
           fst (proc_output ev
                 [subCommand ev ''git-upload-pack'', ''--stateless-rpc'', ''--advertise-refs'',
                  RepoPath r] [])"
  using assms prefix_upload_pack
  by (simp add: getInfoRefs_def getInfoRefs_body_def getInfoRefs_starts_def Let_def cmd_Start_def
      gitCommand_def packLine_def packFlush_def io_Copy_resp_def Write_def WriteHeader_def
      Header_Add_def logError_def cleanUpProcessGroup_def
      split: option.splits prod.splits)

theorem handshake_upload_pack_witness:
  "values_Get (URL_Query (http_req req_info_refs)) ''service'' = ''git-upload-pack'' \<and>
   getInfoRefs_starts (New cfg0) env0 req_info_refs \<and>
   client_room (sys0 (DirNode []) ''/'') = None \<and>
   resp_Body (getInfoRefs (New cfg0) env0 [] req_info_refs (sys0 (DirNode []) ''/'')) =
     ''001e# service=git-upload-pack'' @ [CHR 0x0A] @ ''00000000''"
proof -
  have a: "values_Get (URL_Query (http_req req_info_refs)) ''service'' = ''git-upload-pack''"
    by (simp add: req_info_refs_def request_def values_Get_def)
  have b: "getInfoRefs_starts (New cfg0) env0 req_info_refs"
    by (simp add: getInfoRefs_starts_def req_info_refs_def request_def values_Get_def env0_def)
  have c: "client_room (sys0 (DirNode []) ''/'') = None"
    by (simp add: sys0_def)
  from handshake_upload_pack [OF a b c, of "[]"] a b c show ?thesis
    by (simp add: env0_def sys0_def)
qed

section \<open>Credential extraction\<close>

lemma getCredential_nonempty:
  assumes "values_Get (Header r) ''Authorization'' \<noteq> []"
  shows "getCredential ev r =
     (case BasicAuth ev r of
        Some (user, pass) \<Rightarrow> Inr \<lparr>Username = user, Password = pass, Token = []\<rparr>
      | None \<Rightarrow> Inr \<lparr>Username = [], Password = [], Token = values_Get (Header r) ''Authorization''\<rparr>)"
  using assms by (simp add: getCredential_def tokenAuth_def Let_def split: option.splits)

text \<open>
  C10 (as amended). For a request whose \<^verbatim>\<open>Authorization\<close> header is not empty,
  \<^verbatim>\<open>getCredential\<close> returns no error. When \<^verbatim>\<open>BasicAuth\<close> parses the header, the credential
  holds the decoded user name and password, either of which may be empty, and an empty
  token; when it does not, the token is the whole header value as it came, and user name
  and password are empty. So the token and the pair are never both filled, and the error
  return of \<^verbatim>\<open>getCredential\<close> is not reached.
\<close>

theorem getCredential_never_fails:
  assumes "values_Get (Header r) ''Authorization'' \<noteq> []"
  shows "(\<exists>cred. getCredential ev r = Inr cred \<and>
           (Token cred = [] \<or> (Username cred = [] \<and> Password cred = []))) \<and>
         (\<forall>user pass. BasicAuth ev r = Some (user, pass) \<longrightarrow>
            getCredential ev r = Inr \<lparr>Username = user, Password = pass, Token = []\<rparr>) \<and>
         (BasicAuth ev r = None \<longrightarrow>
            getCredential ev r =
              Inr \<lparr>Username = [], Password = [], Token = values_Get (Header r) ''Authorization''\<rparr>)"
  using getCredential_nonempty [OF assms, of ev]
  by (cases "BasicAuth ev r") auto

text \<open>The theorem at a bearer token, which \<^verbatim>\<open>BasicAuth\<close> does not parse, and at a basic
  credential.\<close>

theorem getCredential_never_fails_witness:
  "values_Get (Header (req_push [''Authorization'' \<mapsto> [''Bearer abc'']])) ''Authorization'' \<noteq> [] \<and>
   BasicAuth env0 (req_push [''Authorization'' \<mapsto> [''Bearer abc'']]) = None \<and>
   getCredential env0 (req_push [''Authorization'' \<mapsto> [''Bearer abc'']]) =
     Inr \<lparr>Username = [], Password = [], Token = ''Bearer abc''\<rparr> \<and>
   values_Get (Header (req_push [''Authorization'' \<mapsto> [''basic dTpw'']])) ''Authorization'' \<noteq> [] \<and>
   BasicAuth env0 (req_push [''Authorization'' \<mapsto> [''basic dTpw'']]) = Some (''u'', ''p'') \<and>
   getCredential env0 (req_push [''Authorization'' \<mapsto> [''basic dTpw'']]) =
     Inr \<lparr>Username = ''u'', Password = ''p'', Token = []\<rparr>"
proof -
  let ?r = "req_push [''Authorization'' \<mapsto> [''Bearer abc'']]"
  let ?b = "req_push [''Authorization'' \<mapsto> [''basic dTpw'']]"
  have a: "values_Get (Header ?r) ''Authorization'' \<noteq> []"
    by (simp add: req_push_def request_def values_Get_def)
  have b: "BasicAuth env0 ?r = None"
    by code_simp
  have c: "values_Get (Header ?b) ''Authorization'' \<noteq> []"
    by (simp add: req_push_def request_def values_Get_def)
  have d: "BasicAuth env0 ?b = Some (''u'', ''p'')"
    by code_simp
  have e: "values_Get (Header ?r) ''Authorization'' = ''Bearer abc''"
    by (simp add: req_push_def request_def values_Get_def)
  from getCredential_never_fails [OF a, of env0] b e
  have 1: "getCredential env0 ?r = Inr \<lparr>Username = [], Password = [], Token = ''Bearer abc''\<rparr>"
    by simp
  from getCredential_never_fails [OF c, of env0] d
  have 2: "getCredential env0 ?b = Inr \<lparr>Username = ''u'', Password = ''p'', Token = []\<rparr>"
    by simp
  from a b c d 1 2 show ?thesis by blast
qed

text \<open>C10 as stated fails at the header \<^verbatim>\<open>Basic Og==\<close>, which decodes to a single colon:
  \<^verbatim>\<open>BasicAuth\<close> accepts it with an empty user name and an empty password, and the credential
  returned has no field filled; it is neither a filled pair nor the raw header as
  token.\<close>

theorem getCredential_empty_basic_pair:
  "values_Get (Header (req_push [''Authorization'' \<mapsto> [''Basic Og=='']])) ''Authorization'' = ''Basic Og=='' \<and>
   base64_DecodeString env0 ''Og=='' = Some '':'' \<and>
   getCredential env0 (req_push [''Authorization'' \<mapsto> [''Basic Og=='']]) =
     Inr \<lparr>Username = [], Password = [], Token = []\<rparr>"
  by code_simp

section \<open>The dispatcher and the authentication block\<close>

text \<open>A request that is routed and whose name is derived reaches the authentication
  block, and the rest of \<^verbatim>\<open>ServeHTTP\<close> when the block lets it through.\<close>

lemma ServeHTTP_routed:
  assumes "findService (srv_services s) r = (Some svc, p)"
    and "getNamespaceAndRepo ev p = (ns, name)"
    and "name \<noteq> [] \<or> (Method r = ''GET'' \<and> HasSuffix (RequestURI r) ''/repos'')"
  shows "ServeHTTP s ev call r st =
     (case ServeHTTP_auth s ev r (newRequest s r ns name)
             (logInfo ''request'' (request_line r) st) of
        Some st' \<Rightarrow> st'
      | None \<Rightarrow> ServeHTTP_dispatch s ev call svc (newRequest s r ns name)
                  (logInfo ''request'' (request_line r) st))"
  using assms by (auto simp: ServeHTTP_def Let_def)

lemma route_push:
  "findService (srv_services (srv_auth f)) (req_push h) =
     (Some \<lparr>svc_method = ''POST'', svc_suffix = ''/git-receive-pack'', svc_handler = PostRPC,
            svc_rpc = ''git-receive-pack''\<rparr>, ''/ns/a.git'')"
  by (simp add: findService_def services_def HasSuffix_def New_def srv_auth_def req_push_def request_def)

lemma name_push: "getNamespaceAndRepo env0 ''/ns/a.git'' = (''ns'', ''a.git'')"
  by (simp add: env0_def namespace_and_leaf_def is_rooted_def Let_def)

text \<open>What the authentication block answers when the capability does not allow the request or returns an
  error: the status 401 and log entries, nothing else.\<close>

lemma auth_rejects:
  assumes "Auth (config s)" and "AuthFunc s = Some f"
    and "values_Get (Header r) ''Authorization'' \<noteq> []"
    and "getCredential ev r = Inr cred"
    and "f cred req = (allow, err)"
    and "\<not> (allow \<and> err = None)"
    and "resp_Status st = 0"
  shows "ServeHTTP_auth s ev r req st =
     Some (st\<lparr>resp_Status := 401,
              log := log st @ (case err of None \<Rightarrow> [] | Some e \<Rightarrow> [LogError ''auth'' e]) @
                     [LogError ''auth'' (''rejected user '' @ Username cred)]\<rparr>)"
  using assms
  by (auto simp: ServeHTTP_auth_def Let_def WriteHeader_def logError_def split: option.splits)

text \<open>
  C5. On a server that requires authentication and has a decision capability, take a
  request that is routed, whose name is derived (or that is the list request) and whose
  \<^verbatim>\<open>Authorization\<close> header is not empty, on a response without a status. If the capability
  answers \<open>(False, None)\<close> for every input, \<^verbatim>\<open>ServeHTTP\<close> returns the state it was given with
  the status 401 and more log entries: no handler ran and nothing went to the client,
  whatever the credential. If the capability returns an error for the extracted
  credential, the same holds and the error is among the new log entries, so it is logged
  and is no part of the response.
\<close>

theorem denied_requests_get_401:
  assumes "findService (srv_services s) r = (Some svc, p)"
    and "getNamespaceAndRepo ev p = (ns, name)"
    and "name \<noteq> [] \<or> (Method r = ''GET'' \<and> HasSuffix (RequestURI r) ''/repos'')"
    and "Auth (config s)" and "AuthFunc s = Some f"
    and "values_Get (Header r) ''Authorization'' \<noteq> []"
    and "resp_Status st = 0"
  shows "((\<forall>cred req. f cred req = (False, None)) \<longrightarrow>
            (\<exists>es. ServeHTTP s ev call r st = st\<lparr>resp_Status := 401, log := log st @ es\<rparr>)) \<and>
         (\<forall>cred allow e.
            getCredential ev r = Inr cred \<and> f cred (newRequest s r ns name) = (allow, Some e) \<longrightarrow>
            (\<exists>es. ServeHTTP s ev call r st = st\<lparr>resp_Status := 401, log := log st @ es\<rparr> \<and>
                  LogError ''auth'' e \<in> set es))"
proof -
  let ?st = "logInfo ''request'' (request_line r) st"
  let ?req = "newRequest s r ns name"
  obtain cred where cred: "getCredential ev r = Inr cred"
    using getCredential_nonempty [OF assms(6), of ev] by (cases "BasicAuth ev r") auto
  have fresh: "resp_Status ?st = 0" using assms(7) by (simp add: logInfo_def)
  have rej: "ServeHTTP s ev call r st =
        st\<lparr>resp_Status := 401,
           log := log st @ [LogInfo ''request'' (request_line r)] @
                  (case err of None \<Rightarrow> [] | Some e \<Rightarrow> [LogError ''auth'' e]) @
                  [LogError ''auth'' (''rejected user '' @ Username cred)]\<rparr>"
    if "f cred ?req = (allow, err)" and "\<not> (allow \<and> err = None)" for allow err
    using auth_rejects [OF assms(4,5,6) cred that fresh]
    by (simp add: ServeHTTP_routed [OF assms(1,2,3)] logInfo_def)
  show ?thesis
  proof (intro conjI impI allI)
    assume "\<forall>cred req. f cred req = (False, None)"
    then have "f cred ?req = (False, None)" by blast
    from rej [OF this] show "\<exists>es. ServeHTTP s ev call r st = st\<lparr>resp_Status := 401, log := log st @ es\<rparr>"
      by auto
  next
    fix c allow e
    assume "getCredential ev r = Inr c \<and> f c ?req = (allow, Some e)"
    with cred have "f cred ?req = (allow, Some e)" by simp
    from rej [OF this] show "\<exists>es. ServeHTTP s ev call r st = st\<lparr>resp_Status := 401, log := log st @ es\<rparr> \<and>
                  LogError ''auth'' e \<in> set es"
      by auto
  qed
qed

text \<open>The theorem at a push with a bearer token, for the capability that denies
  everybody and for the one whose backend fails.\<close>

theorem denied_requests_get_401_witness:
  "Auth (config (srv_auth (Some deny_all))) \<and>
   values_Get (Header (req_push [''Authorization'' \<mapsto> [''Bearer abc'']])) ''Authorization'' = ''Bearer abc'' \<and>
   resp_Status (ServeHTTP (srv_auth (Some deny_all)) env0 (handlers (srv_auth (Some deny_all)) env0)
                  (req_push [''Authorization'' \<mapsto> [''Bearer abc'']]) (sys0 (DirNode []) ''/'')) = 401 \<and>
   resp_Status (ServeHTTP (srv_auth (Some backend_down)) env0 (handlers (srv_auth (Some backend_down)) env0)
                  (req_push [''Authorization'' \<mapsto> [''Bearer abc'']]) (sys0 (DirNode []) ''/'')) = 401 \<and>
   LogError ''auth'' ''backend down'' \<in>
     set (log (ServeHTTP (srv_auth (Some backend_down)) env0 (handlers (srv_auth (Some backend_down)) env0)
                  (req_push [''Authorization'' \<mapsto> [''Bearer abc'']]) (sys0 (DirNode []) ''/'')))"
proof -
  let ?r = "req_push [''Authorization'' \<mapsto> [''Bearer abc'']]"
  let ?st = "sys0 (DirNode []) ''/''"
  have named: "''a.git'' \<noteq> [] \<or> (Method ?r = ''GET'' \<and> HasSuffix (RequestURI ?r) ''/repos'')"
    by simp
  have auth: "Auth (config (srv_auth f))" for f
    by (simp add: srv_auth_def New_def cfg0_def)
  have af: "AuthFunc (srv_auth (Some f)) = Some f" for f
    by (simp add: srv_auth_def)
  have hdr: "values_Get (Header ?r) ''Authorization'' = ''Bearer abc''"
    by (simp add: req_push_def request_def values_Get_def)
  then have hdr': "values_Get (Header ?r) ''Authorization'' \<noteq> []" by simp
  have fresh: "resp_Status ?st = 0" by (simp add: sys0_def)
  have cred: "getCredential env0 ?r = Inr \<lparr>Username = [], Password = [], Token = ''Bearer abc''\<rparr>"
    by (simp add: getCredential_def BasicAuth_def parseBasicAuth_def EqualFold_def ascii_lower_def
        tokenAuth_def req_push_def request_def values_Get_def Let_def)
  note deny = denied_requests_get_401 [OF route_push name_push named auth af hdr' fresh,
      of deny_all "handlers (srv_auth (Some deny_all)) env0"]
  note down = denied_requests_get_401 [OF route_push name_push named auth af hdr' fresh,
      of backend_down "handlers (srv_auth (Some backend_down)) env0"]
  from deny have 1: "resp_Status (ServeHTTP (srv_auth (Some deny_all)) env0
        (handlers (srv_auth (Some deny_all)) env0) ?r ?st) = 401"
    by (auto simp: deny_all_def)
  from down cred have "\<exists>es. ServeHTTP (srv_auth (Some backend_down)) env0
        (handlers (srv_auth (Some backend_down)) env0) ?r ?st = ?st\<lparr>resp_Status := 401, log := log ?st @ es\<rparr> \<and>
        LogError ''auth'' ''backend down'' \<in> set es"
    by (auto simp: backend_down_def)
  then have 2: "resp_Status (ServeHTTP (srv_auth (Some backend_down)) env0
        (handlers (srv_auth (Some backend_down)) env0) ?r ?st) = 401 \<and>
     LogError ''auth'' ''backend down'' \<in>
       set (log (ServeHTTP (srv_auth (Some backend_down)) env0 (handlers (srv_auth (Some backend_down)) env0)
                  ?r ?st))"
    by auto
  from auth hdr 1 2 show ?thesis by simp
qed

text \<open>
  C6 (as amended). On a server that requires authentication, a request that is routed,
  whose name is derived (or that is the list request) and that has no \<^verbatim>\<open>Authorization\<close>
  header is answered with the status 401. With a decision capability installed the
  response carries the header \<^verbatim>\<open>WWW-Authenticate: Basic realm=""\<close>; with none installed the
  401 is sent from the check before it, and the challenge header is not set.
\<close>

theorem missing_header_gets_401:
  assumes "findService (srv_services s) r = (Some svc, p)"
    and "getNamespaceAndRepo ev p = (ns, name)"
    and "name \<noteq> [] \<or> (Method r = ''GET'' \<and> HasSuffix (RequestURI r) ''/repos'')"
    and "Auth (config s)"
    and "values_Get (Header r) ''Authorization'' = []"
    and "resp_Status st = 0"
  shows "resp_Status (ServeHTTP s ev call r st) = 401 \<and>
         resp_Header (ServeHTTP s ev call r st) ''WWW-Authenticate'' =
           (case AuthFunc s of
              None \<Rightarrow> resp_Header st ''WWW-Authenticate''
            | Some f \<Rightarrow> Some [''Basic realm=\"\"''])"
  using assms(4,5,6)
  by (simp add: ServeHTTP_routed [OF assms(1,2,3)] ServeHTTP_auth_def WriteHeader_def
      Header_Set_def logError_def logInfo_def split: option.splits)

theorem missing_header_gets_401_witness:
  "Auth (config (srv_auth (Some deny_all))) \<and>
   values_Get (Header (req_push Map.empty)) ''Authorization'' = [] \<and>
   resp_Status (ServeHTTP (srv_auth (Some deny_all)) env0 (handlers (srv_auth (Some deny_all)) env0)
                  (req_push Map.empty) (sys0 (DirNode []) ''/'')) = 401 \<and>
   resp_Header (ServeHTTP (srv_auth (Some deny_all)) env0 (handlers (srv_auth (Some deny_all)) env0)
                  (req_push Map.empty) (sys0 (DirNode []) ''/'')) ''WWW-Authenticate'' =
     Some [''Basic realm=\"\"'']"
proof -
  have named: "''a.git'' \<noteq> [] \<or>
      (Method (req_push Map.empty) = ''GET'' \<and> HasSuffix (RequestURI (req_push Map.empty)) ''/repos'')"
    by simp
  have auth: "Auth (config (srv_auth (Some deny_all)))"
    by (simp add: srv_auth_def New_def cfg0_def)
  have hdr: "values_Get (Header (req_push Map.empty)) ''Authorization'' = []"
    by (simp add: req_push_def request_def values_Get_def)
  have fresh: "resp_Status (sys0 (DirNode []) ''/'') = 0" by (simp add: sys0_def)
  from missing_header_gets_401 [OF route_push name_push named auth hdr fresh,
      of "handlers (srv_auth (Some deny_all)) env0"] auth hdr
  show ?thesis by (simp add: srv_auth_def)
qed

text \<open>C6 as stated fails on a server that requires authentication and has no decision
  capability: the push without credentials is answered 401 without the challenge
  header.\<close>

theorem no_challenge_without_backend:
  "Auth (config (srv_auth None)) \<and>
   values_Get (Header (req_push Map.empty)) ''Authorization'' = [] \<and>
   resp_Status (ServeHTTP (srv_auth None) env0 (handlers (srv_auth None) env0)
                  (req_push Map.empty) (sys0 (DirNode []) ''/'')) = 401 \<and>
   resp_Header (ServeHTTP (srv_auth None) env0 (handlers (srv_auth None) env0)
                  (req_push Map.empty) (sys0 (DirNode []) ''/'')) ''WWW-Authenticate'' = None"
proof -
  have named: "''a.git'' \<noteq> [] \<or>
      (Method (req_push Map.empty) = ''GET'' \<and> HasSuffix (RequestURI (req_push Map.empty)) ''/repos'')"
    by simp
  have auth: "Auth (config (srv_auth None))"
    by (simp add: srv_auth_def New_def cfg0_def)
  have hdr: "values_Get (Header (req_push Map.empty)) ''Authorization'' = []"
    by (simp add: req_push_def request_def values_Get_def)
  have none: "AuthFunc (srv_auth None) = None" by (simp add: srv_auth_def)
  show ?thesis
    using auth hdr none
    by (simp add: ServeHTTP_routed [OF route_push name_push named] ServeHTTP_auth_def
        WriteHeader_def logError_def logInfo_def sys0_def)
qed

section \<open>Automatic creation\<close>

text \<open>
  The path of \<^verbatim>\<open>ServeHTTP\<close> for a request that is routed, named and let through by the
  authentication block, that the carve-out test for create and list does not take, whose
  repository does not exist, on a server with automatic creation. \<^verbatim>\<open>initRepo\<close> runs first;
  its error, if any, is logged and the request goes on; the existence is checked again in
  the state \<^verbatim>\<open>initRepo\<close> left. If the repository exists there, the handler runs on that
  state. If it does not, the response is the not-found response with status 404 and the
  log holds the error of the creation; no handler appears in the result.
\<close>

lemma auto_create_then_recheck:
  assumes "findService (srv_services s) r = (Some svc, p)"
    and "getNamespaceAndRepo ev p = (ns, name)"
    and "name \<noteq> []"
    and "req = newRequest s r ns name"
    and "ServeHTTP_auth s ev r req (logInfo ''request'' (request_line r) st) = None"
    and "\<not> (Method r = ''POST'' \<and> HasSuffix (RequestURI r) ''/repo'' \<or>
            Method r = ''GET'' \<and> HasSuffix (RequestURI r) ''/repos'')"
    and "\<not> repoExists st (RepoPath req)"
    and "AutoCreate (config s)"
    and "initRepo ev (RepoName req) (config s) (logInfo ''request'' (request_line r) st) = (err, st1)"
    and "st2 = (case err of None \<Rightarrow> st1 | Some e \<Rightarrow> logError ''repo-init'' e st1)"
    and "resp_Status st = 0"
  shows "ServeHTTP s ev call r st =
           (if repoExists st1 (RepoPath req)
            then call (svc_handler svc) (svc_rpc svc) req st2
            else http_NotFound (logError ''repo-init'' (RepoPath req @ '' does not exist'') st2)) \<and>
         (\<not> repoExists st1 (RepoPath req) \<longrightarrow>
            resp_Status (ServeHTTP s ev call r st) = 404 \<and>
            (\<forall>e. err = Some e \<longrightarrow> LogError ''repo-init'' e \<in> set (log (ServeHTTP s ev call r st))))"
proof -
  let ?st = "logInfo ''request'' (request_line r) st"
  have named: "name \<noteq> [] \<or> (Method r = ''GET'' \<and> HasSuffix (RequestURI r) ''/repos'')"
    using assms(3) by simp
  have ex2: "repoExists st2 (RepoPath req) = repoExists st1 (RepoPath req)"
    using assms(10) by (simp split: option.splits)
  have eq: "ServeHTTP s ev call r st =
           (if repoExists st1 (RepoPath req)
            then call (svc_handler svc) (svc_rpc svc) req st2
            else http_NotFound (logError ''repo-init'' (RepoPath req @ '' does not exist'') st2))"
    using assms(4-10) ex2
    by (auto simp: ServeHTTP_routed [OF assms(1,2) named] ServeHTTP_dispatch_def Let_def
        split: option.splits)
  have fresh2: "resp_Status (logError ''repo-init'' (RepoPath req @ '' does not exist'') st2) = 0"
    using initRepo_keeps [OF assms(9)] assms(10,11)
    by (simp add: logError_def logInfo_def split: option.splits)
  have logs: "LogError ''repo-init'' e \<in> set (log st2)" if "err = Some e" for e
    using that assms(10) by (simp add: logError_def)
  show ?thesis
    using eq status_http_Error [OF fresh2, of 404 "''404 page not found''"] logs
    by (auto simp: http_NotFound_def logError_def)
qed

lemma path_a: "path_Join [''/srv/git'', ''ns'', ''a.git''] = ''/srv/git/ns/a.git''"
  by code_simp

lemma name_a: "path_Join [''ns'', ''a.git''] = ''ns/a.git''"
  by code_simp

lemma no_repo_a: "\<not> repoExists (sys0 (DirNode []) ''/'') ''/srv/git/ns/a.git''"
  by code_simp

text \<open>The lemma at a push to a missing repository when the executable cannot be
  run.\<close>

lemma auto_create_then_recheck_at_push:
  "AutoCreate (config srv_auto) \<and>
   \<not> repoExists (sys0 (DirNode []) ''/'') ''/srv/git/ns/a.git'' \<and>
   resp_Status (ServeHTTP srv_auto env_no_git (handlers srv_auto env_no_git)
                  (req_push Map.empty) (sys0 (DirNode []) ''/'')) = 404 \<and>
   LogError ''repo-init'' ''exec: not found'' \<in>
     set (log (ServeHTTP srv_auto env_no_git (handlers srv_auto env_no_git)
                 (req_push Map.empty) (sys0 (DirNode []) ''/'')))"
proof -
  let ?r = "req_push Map.empty"
  let ?st = "sys0 (DirNode []) ''/''"
  let ?req = "newRequest srv_auto ?r ''ns'' ''a.git''"
  have route: "findService (srv_services srv_auto) ?r =
     (Some \<lparr>svc_method = ''POST'', svc_suffix = ''/git-receive-pack'', svc_handler = PostRPC,
            svc_rpc = ''git-receive-pack''\<rparr>, ''/ns/a.git'')"
    by (simp add: findService_def services_def HasSuffix_def New_def srv_auto_def req_push_def
        request_def)
  have gnr: "getNamespaceAndRepo env_no_git ''/ns/a.git'' = (''ns'', ''a.git'')"
    by (simp add: env_no_git_def env0_def namespace_and_leaf_def is_rooted_def Let_def)
  have named: "''a.git'' \<noteq> []" by simp
  have rp: "RepoPath ?req = ''/srv/git/ns/a.git''" and rn: "RepoName ?req = ''ns/a.git''"
    by (simp_all add: newRequest_def srv_auto_def New_def cfg0_def path_a name_a)
  have pass: "ServeHTTP_auth srv_auto env_no_git ?r ?req (logInfo ''request'' (request_line ?r) ?st) = None"
    by (simp add: ServeHTTP_auth_def srv_auto_def New_def cfg0_def)
  have nocarve: "\<not> (Method ?r = ''POST'' \<and> HasSuffix (RequestURI ?r) ''/repo'' \<or>
            Method ?r = ''GET'' \<and> HasSuffix (RequestURI ?r) ''/repos'')"
    by (simp add: req_push_def request_def HasSuffix_def)
  have missing: "\<not> repoExists ?st (RepoPath ?req)"
    using no_repo_a by (simp add: rp)
  have auto: "AutoCreate (config srv_auto)"
    by (simp add: srv_auto_def New_def cfg0_def)
  have init: "initRepo env_no_git (RepoName ?req) (config srv_auto)
                (logInfo ''request'' (request_line ?r) ?st) =
              (Some ''exec: not found'', logInfo ''request'' (request_line ?r) ?st)"
    by (simp add: initRepo_def env_no_git_def git_init_fails_def Let_def logInfo_def sys0_def)
  have fresh: "resp_Status ?st = 0" by (simp add: sys0_def)
  have still: "\<not> repoExists (logInfo ''request'' (request_line ?r) ?st) (RepoPath ?req)"
    using missing by simp
  note recheck = auto_create_then_recheck [OF route gnr named refl pass nocarve missing auto init
      refl fresh, of "handlers srv_auto env_no_git"]
  from recheck [THEN conjunct2] still
  have "resp_Status (ServeHTTP srv_auto env_no_git (handlers srv_auto env_no_git) ?r ?st) = 404 \<and>
        LogError ''repo-init'' ''exec: not found'' \<in>
          set (log (ServeHTTP srv_auto env_no_git (handlers srv_auto env_no_git) ?r ?st))"
    by blast
  with auto no_repo_a show ?thesis by blast
qed

section \<open>Creating a repository\<close>

text \<open>What a successful \<^verbatim>\<open>initRepo\<close> leaves, when a successful \<^verbatim>\<open>init --bare\<close> of the
  executable has created the \<^verbatim>\<open>objects\<close> entry and the hook installer keeps it.\<close>

lemma initRepo_creates:
  assumes git: "\<forall>r r1. exec_Run ev (GitPath cfg) [''init'', ''--bare'', path_Join [Dir cfg, name]] r = (None, r1) \<longrightarrow>
                  repoExists (st\<lparr>root := r1\<rparr>) (path_Join [Dir cfg, name])"
    and hooks: "\<forall>r e r2. setupInDir ev (path_Join [Dir cfg, name]) r = (e, r2) \<longrightarrow>
                  repoExists (st\<lparr>root := r\<rparr>) (path_Join [Dir cfg, name]) \<longrightarrow>
                  repoExists (st\<lparr>root := r2\<rparr>) (path_Join [Dir cfg, name])"
    and init: "initRepo ev name cfg st = (None, st1)"
  shows "repoExists st1 (path_Join [Dir cfg, name])"
  using assms
  by (auto simp: initRepo_def Let_def split: prod.splits option.splits if_splits)

text \<open>
  C9 (as amended). For a create request on a response without a status: when the target
  path holds an \<^verbatim>\<open>objects\<close> entry, \<^verbatim>\<open>createRepo\<close> responds 409 and the file system is the one
  it was given. When it holds none and \<^verbatim>\<open>initRepo\<close> returns no error, \<^verbatim>\<open>createRepo\<close> responds
  201; and the repository exists on the target path afterwards, the target path being
  the root directory joined with the name, for an executable whose successful
  \<^verbatim>\<open>init --bare\<close> has created the \<^verbatim>\<open>objects\<close> entry there and a hook installer that keeps
  it. When it holds none and \<^verbatim>\<open>initRepo\<close> returns an error, \<^verbatim>\<open>createRepo\<close> responds 500.
\<close>

theorem createRepo_outcomes:
  assumes "resp_Status st = 0"
    and "initRepo ev (RepoName req) (config s) st = (err, st1)"
  shows "(repoExists st (RepoPath req) \<longrightarrow>
            resp_Status (createRepo s ev u req st) = 409 \<and>
            root (createRepo s ev u req st) = root st) \<and>
         (\<not> repoExists st (RepoPath req) \<and> err = None \<longrightarrow>
            resp_Status (createRepo s ev u req st) = 201) \<and>
         (\<not> repoExists st (RepoPath req) \<and> err = None \<and>
          RepoPath req = path_Join [Dir (config s), RepoName req] \<and>
          (\<forall>r r1. exec_Run ev (GitPath (config s)) [''init'', ''--bare'', RepoPath req] r = (None, r1) \<longrightarrow>
                    repoExists (st\<lparr>root := r1\<rparr>) (RepoPath req)) \<and>
          (\<forall>r e r2. setupInDir ev (RepoPath req) r = (e, r2) \<longrightarrow>
                    repoExists (st\<lparr>root := r\<rparr>) (RepoPath req) \<longrightarrow>
                    repoExists (st\<lparr>root := r2\<rparr>) (RepoPath req)) \<longrightarrow>
            repoExists (createRepo s ev u req st) (RepoPath req)) \<and>
         (\<not> repoExists st (RepoPath req) \<and> err \<noteq> None \<longrightarrow>
            resp_Status (createRepo s ev u req st) = 500)"
proof -
  have fresh1: "resp_Status st1 = 0" using initRepo_keeps [OF assms(2)] assms(1) by simp
  have a: "repoExists st (RepoPath req) \<longrightarrow>
            resp_Status (createRepo s ev u req st) = 409 \<and>
            root (createRepo s ev u req st) = root st"
    using assms(1) by (simp add: createRepo_def formatResponse_def WriteHeader_def)
  have b: "\<not> repoExists st (RepoPath req) \<and> err = None \<longrightarrow>
            resp_Status (createRepo s ev u req st) = 201"
    using assms(2) fresh1 by (simp add: createRepo_def formatResponse_def WriteHeader_def)
  have c: "repoExists (createRepo s ev u req st) (RepoPath req)"
    if miss: "\<not> repoExists st (RepoPath req)" and ok: "err = None"
      and path: "RepoPath req = path_Join [Dir (config s), RepoName req]"
      and git: "\<forall>r r1. exec_Run ev (GitPath (config s)) [''init'', ''--bare'', RepoPath req] r = (None, r1) \<longrightarrow>
                    repoExists (st\<lparr>root := r1\<rparr>) (RepoPath req)"
      and hooks: "\<forall>r e r2. setupInDir ev (RepoPath req) r = (e, r2) \<longrightarrow>
                    repoExists (st\<lparr>root := r\<rparr>) (RepoPath req) \<longrightarrow>
                    repoExists (st\<lparr>root := r2\<rparr>) (RepoPath req)"
  proof -
    have init: "initRepo ev (RepoName req) (config s) st = (None, st1)"
      using assms(2) ok by simp
    have "repoExists st1 (path_Join [Dir (config s), RepoName req])"
      using initRepo_creates [OF _ _ init] git hooks path by simp
    moreover have "createRepo s ev u req st =
        formatResponse \<lparr>Code = 201, Data = KitRepoResponse (RepoName req)\<rparr> 201 st1"
      using miss init by (simp add: createRepo_def)
    ultimately show ?thesis
      using path by (simp add: formatResponse_def WriteHeader_def repoExists_def os_Stat_def)
  qed
  have d: "\<not> repoExists st (RepoPath req) \<and> err \<noteq> None \<longrightarrow>
            resp_Status (createRepo s ev u req st) = 500"
    using assms(2) status_http_Error [OF fresh1, of 500 "''Internal server error''"]
    by (auto simp: createRepo_def fail500_def logError_def)
  from a b c d show ?thesis by blast
qed

lemma objects_a: "path_Join [''/srv/git/ns/a.git'', ''objects''] = ''/srv/git/ns/a.git/objects''"
  by code_simp

lemma target_a: "RepoPath req_create = path_Join [Dir (config (New cfg0)), RepoName req_create]"
  by code_simp

lemma git_init_ok_creates:
  "exec_Run env0 g [''init'', ''--bare'', RepoPath req_create] r = (None, r1) \<Longrightarrow>
   repoExists ((sys0 d ''/'')\<lparr>root := r1\<rparr>) (RepoPath req_create)"
  by (simp add: env0_def git_init_ok_def Let_def repoExists_def os_Stat_def sys0_def req_create_def
      objects_a split: if_splits)

text \<open>The theorem at an empty disk with an executable that creates the repository, and
  at a disk that holds the repository.\<close>

theorem createRepo_outcomes_witness:
  "\<not> repoExists (sys0 (DirNode []) ''/'') (RepoPath req_create) \<and>
   RepoPath req_create = path_Join [Dir (config (New cfg0)), RepoName req_create] \<and>
   resp_Status (createRepo (New cfg0) env0 [] req_create (sys0 (DirNode []) ''/'')) = 201 \<and>
   repoExists (createRepo (New cfg0) env0 [] req_create (sys0 (DirNode []) ''/'')) (RepoPath req_create) \<and>
   repoExists (sys0 disk0 ''/'') (RepoPath req_create) \<and>
   resp_Status (createRepo (New cfg0) env0 [] req_create (sys0 disk0 ''/'')) = 409 \<and>
   root (createRepo (New cfg0) env0 [] req_create (sys0 disk0 ''/'')) = disk0"
proof -
  let ?init = "\<lambda>d. initRepo env0 (RepoName req_create) (config (New cfg0)) (sys0 d ''/'')"
  have fresh: "resp_Status (sys0 d ''/'') = 0" for d by (simp add: sys0_def)
  have pair: "?init d = (fst (?init d), snd (?init d))" for d by simp
  have missing: "\<not> repoExists (sys0 (DirNode []) ''/'') (RepoPath req_create)"
    by code_simp
  have ok: "fst (?init (DirNode [])) = None"
    by code_simp
  have git: "\<forall>r r1. exec_Run env0 (GitPath (config (New cfg0))) [''init'', ''--bare'', RepoPath req_create] r = (None, r1) \<longrightarrow>
      repoExists ((sys0 (DirNode []) ''/'')\<lparr>root := r1\<rparr>) (RepoPath req_create)"
    using git_init_ok_creates by blast
  have hooks: "\<forall>r e r2. setupInDir env0 (RepoPath req_create) r = (e, r2) \<longrightarrow>
      repoExists ((sys0 (DirNode []) ''/'')\<lparr>root := r\<rparr>) (RepoPath req_create) \<longrightarrow>
      repoExists ((sys0 (DirNode []) ''/'')\<lparr>root := r2\<rparr>) (RepoPath req_create)"
    by (simp add: env0_def)
  have there: "repoExists (sys0 disk0 ''/'') (RepoPath req_create)"
    by code_simp
  have root0: "root (sys0 disk0 ''/'') = disk0" by (simp add: sys0_def)
  note empty = createRepo_outcomes [OF fresh pair, of "DirNode []" "[]"]
  from empty missing ok
  have 1: "resp_Status (createRepo (New cfg0) env0 [] req_create (sys0 (DirNode []) ''/'')) = 201"
    by blast
  from empty missing ok target_a git hooks
  have 2: "repoExists (createRepo (New cfg0) env0 [] req_create (sys0 (DirNode []) ''/'')) (RepoPath req_create)"
    by blast
  from createRepo_outcomes [OF fresh pair, of disk0 "[]"] there root0
  have 3: "resp_Status (createRepo (New cfg0) env0 [] req_create (sys0 disk0 ''/'')) = 409 \<and>
     root (createRepo (New cfg0) env0 [] req_create (sys0 disk0 ''/'')) = disk0"
    by simp
  from missing target_a there 1 2 3 show ?thesis by blast
qed

text \<open>C9 as stated fails when the initialization does not succeed. When the executable
  cannot be run, no \<^verbatim>\<open>objects\<close> entry exists under the target path, the response is 500
  and not 201, and the repository does not exist afterwards. When the executable exits
  with success and has created nothing, the response is 201 and the repository does not
  exist afterwards.\<close>

theorem createRepo_init_failure:
  "\<not> repoExists (sys0 (DirNode []) ''/'') (RepoPath req_create) \<and>
   resp_Status (createRepo (New cfg0) env_no_git [] req_create (sys0 (DirNode []) ''/'')) = 500 \<and>
   \<not> repoExists (createRepo (New cfg0) env_no_git [] req_create (sys0 (DirNode []) ''/''))
        (RepoPath req_create) \<and>
   fst (initRepo env_idle_git (RepoName req_create) (config (New cfg0)) (sys0 (DirNode []) ''/'')) = None \<and>
   resp_Status (createRepo (New cfg0) env_idle_git [] req_create (sys0 (DirNode []) ''/'')) = 201 \<and>
   \<not> repoExists (createRepo (New cfg0) env_idle_git [] req_create (sys0 (DirNode []) ''/''))
        (RepoPath req_create)"
  by code_simp

section \<open>Where the code departs from the specification\<close>

text \<open>
  C2. \<^verbatim>\<open>listRepo\<close> reads the second-level directories by their bare entry names, which the
  operating system resolves against the working directory of the server and not against
  the root directory \<^verbatim>\<open>/srv/git\<close>. Started in \<^verbatim>\<open>/home\<close>, the server lists \<^verbatim>\<open>ns/other.git\<close>, which
  lies under \<^verbatim>\<open>/home\<close>, and not the repository \<^verbatim>\<open>ns/a.git\<close> under its root; started in \<^verbatim>\<open>/\<close>,
  it fails with status 500 because \<^verbatim>\<open>/ns\<close> does not exist.
\<close>

theorem listRepo_reads_working_directory:
  "Dir (config srv_list) = ''/srv/git'' \<and>
   resp_Json (listRepo srv_list env0 [] req_list (sys0 disk0 ''/home'')) =
     Some \<lparr>Code = 200, Data = KitListRepoResponse [''ns/other.git'']\<rparr> \<and>
   resp_Status (listRepo srv_list env0 [] req_list (sys0 disk0 ''/'')) = 500 \<and>
   log (listRepo srv_list env0 [] req_list (sys0 disk0 ''/'')) =
     [LogError ''list repo'' ''open ns: no such file or directory'']"
  by code_simp

text \<open>
  C3. \<^verbatim>\<open>findService\<close> removes the leftmost occurrence of the suffix. For the create request
  \<^verbatim>\<open>POST /ns/repo.git/repo\<close> the suffix \<^verbatim>\<open>/repo\<close> also starts \<^verbatim>\<open>/repo.git\<close>, and the path
  returned is \<^verbatim>\<open>/ns.git/repo\<close>, not \<^verbatim>\<open>/ns/repo.git\<close>.
\<close>

theorem findService_removes_first_occurrence:
  "findService (srv_services (New cfg0)) (request ''POST'' ''/ns/repo.git/repo'' [] Map.empty) =
     (Some \<lparr>svc_method = ''POST'', svc_suffix = ''/repo'', svc_handler = CreateRepo, svc_rpc = []\<rparr>,
      ''/ns.git/repo'')"
  by code_simp

text \<open>
  C7. The carve-out for create and list tests the request URI, which includes the query
  string, and takes any POST whose query string ends in \<^verbatim>\<open>/repo\<close>. On a server with
  automatic creation and a disk without the repository,
  \<^verbatim>\<open>POST /ns/a.git/git-receive-pack?x=/repo\<close> is routed to \<^verbatim>\<open>postRPC\<close> and handed to it at
  once: nothing is created, nothing but the request is logged, the handler runs its
  subprocess on the missing repository and the response is 200, where the same request
  without the query string has the repository created first.
\<close>

theorem push_with_query_skips_existence_check:
  "fst (findService (srv_services srv_auto)
          (request ''POST'' ''/ns/a.git/git-receive-pack'' ''x=/repo'' Map.empty)) =
     Some \<lparr>svc_method = ''POST'', svc_suffix = ''/git-receive-pack'', svc_handler = PostRPC,
           svc_rpc = ''git-receive-pack''\<rparr> \<and>
   AutoCreate (config srv_auto) \<and>
   \<not> repoExists (sys0 (DirNode []) ''/'') ''/srv/git/ns/a.git'' \<and>
   resp_Status (ServeHTTP srv_auto env0 (handlers srv_auto env0)
       (request ''POST'' ''/ns/a.git/git-receive-pack'' ''x=/repo'' Map.empty) (sys0 (DirNode []) ''/'')) = 200 \<and>
   root (ServeHTTP srv_auto env0 (handlers srv_auto env0)
       (request ''POST'' ''/ns/a.git/git-receive-pack'' ''x=/repo'' Map.empty) (sys0 (DirNode []) ''/'')) = DirNode [] \<and>
   pgroups (ServeHTTP srv_auto env0 (handlers srv_auto env0)
       (request ''POST'' ''/ns/a.git/git-receive-pack'' ''x=/repo'' Map.empty) (sys0 (DirNode []) ''/'')) = [Terminated] \<and>
   log (ServeHTTP srv_auto env0 (handlers srv_auto env0)
       (request ''POST'' ''/ns/a.git/git-receive-pack'' ''x=/repo'' Map.empty) (sys0 (DirNode []) ''/'')) =
     [LogInfo ''request'' ''POST localhost/ns/a.git/git-receive-pack?x=/repo''] \<and>
   repoExists (ServeHTTP srv_auto env0 (handlers srv_auto env0)
       (request ''POST'' ''/ns/a.git/git-receive-pack'' [] Map.empty) (sys0 (DirNode []) ''/''))
     ''/srv/git/ns/a.git''"
  by code_simp

text \<open>A request whose request URI ends in \<^verbatim>\<open>/repo\<close> (for a POST) or in \<^verbatim>\<open>/repos\<close> (for a
  GET) is handed to the handler of the routed service in the state the authentication block left, with
  no existence check and no creation.\<close>

lemma carve_out_calls_handler:
  assumes "findService (srv_services s) r = (Some svc, p)"
    and "getNamespaceAndRepo ev p = (ns, name)"
    and "name \<noteq> [] \<or> (Method r = ''GET'' \<and> HasSuffix (RequestURI r) ''/repos'')"
    and "ServeHTTP_auth s ev r (newRequest s r ns name) (logInfo ''request'' (request_line r) st) = None"
    and "Method r = ''POST'' \<and> HasSuffix (RequestURI r) ''/repo'' \<or>
         Method r = ''GET'' \<and> HasSuffix (RequestURI r) ''/repos''"
  shows "ServeHTTP s ev call r st =
           call (svc_handler svc) (svc_rpc svc) (newRequest s r ns name)
             (logInfo ''request'' (request_line r) st)"
  using assms(4,5)
  by (auto simp: ServeHTTP_routed [OF assms(1,2,3)] ServeHTTP_dispatch_def)

text \<open>
  C8. The carve-out for create and list tests the request URI, which includes the query
  string, while the routing tests the URL path. \<^verbatim>\<open>POST /ns/a.git/repo?x=1\<close> is routed to
  \<^verbatim>\<open>createRepo\<close>, is not taken by the carve-out, and on a disk without the repository is
  answered 404 with nothing created; the same request without the query string is
  answered 201.
\<close>

theorem create_with_query_not_carved_out:
  "fst (findService (srv_services (New cfg0)) (request ''POST'' ''/ns/a.git/repo'' ''x=1'' Map.empty)) =
     Some \<lparr>svc_method = ''POST'', svc_suffix = ''/repo'', svc_handler = CreateRepo, svc_rpc = []\<rparr> \<and>
   resp_Status (ServeHTTP (New cfg0) env0 (handlers (New cfg0) env0)
                  (request ''POST'' ''/ns/a.git/repo'' ''x=1'' Map.empty) (sys0 (DirNode []) ''/'')) = 404 \<and>
   resp_Json (ServeHTTP (New cfg0) env0 (handlers (New cfg0) env0)
                  (request ''POST'' ''/ns/a.git/repo'' ''x=1'' Map.empty) (sys0 (DirNode []) ''/'')) = None \<and>
   root (ServeHTTP (New cfg0) env0 (handlers (New cfg0) env0)
                  (request ''POST'' ''/ns/a.git/repo'' ''x=1'' Map.empty) (sys0 (DirNode []) ''/'')) = DirNode [] \<and>
   resp_Status (ServeHTTP (New cfg0) env0 (handlers (New cfg0) env0)
                  (request ''POST'' ''/ns/a.git/repo'' [] Map.empty) (sys0 (DirNode []) ''/'')) = 201"
  by code_simp

end
